theory Spec2Isabelle
  imports Main
begin

unbundle bit_operations_syntax

section \<open>The device I/O multiplexer of the MINIX file server (servers/fs/device.c)\<close>

text \<open>
  The theory embeds the routines of \<^verbatim>\<open>src/servers/fs/device.c\<close>: the file server (FS)
  forwards every request on a block or character device to the driver process that is
  bound to the device's major number.  C integers are modelled as \<open>int\<close>; the few places
  where the width of a C type matters (\<open>dev_t\<close>, \<open>vir_bytes\<close>) convert explicitly.
  A pointer is an \<open>int\<close> address, or an index into the table it points into.
\<close>

subsection \<open>Constants and macros of the headers\<close>

text \<open>
  Modelled from the spec: the constants and macros below come from the headers that
  \<^verbatim>\<open>device.c\<close> includes (\<^verbatim>\<open>minix/com.h\<close>, \<^verbatim>\<open>minix/const.h\<close>, \<^verbatim>\<open>minix/safecopies.h\<close>,
  \<^verbatim>\<open>errno.h\<close>, \<^verbatim>\<open>fcntl.h\<close>, \<^verbatim>\<open>fs/const.h\<close>), which are not part of the source given here.
  The spec names them (\<open>SUSPEND\<close>, \<open>ENXIO\<close>, \<open>EIO\<close>, \<open>EAGAIN\<close>, \<open>NONE\<close>, \<open>OK\<close>,
  \<open>NR_IOREQS\<close>, the non-blocking flag, the sentinel \<open>1\<close>) without giving values; they
  carry the values of the MINIX 3.1 headers.  What is proved below uses only that the
  values are distinct where the C code needs them distinct (the labels of a
  \<^verbatim>\<open>switch\<close>), that error codes are negative in server code, and that a grant
  identifier is valid exactly when it is non-negative.
\<close>

definition OK :: int where "OK = 0"

definition EINTR :: int where "EINTR = - 4"
definition EIO :: int where "EIO = - 5"
definition ENXIO :: int where "ENXIO = - 6"
definition EAGAIN :: int where "EAGAIN = - 11"
definition ENODEV :: int where "ENODEV = - 19"
definition ELOCKED :: int where "ELOCKED = - 101"
definition EDSTDIED :: int where "EDSTDIED = - 109"
definition ESRCDIED :: int where "ESRCDIED = - 110"
definition EDEADSRCDST :: int where "EDEADSRCDST = - 215"

definition SUSPEND :: int where "SUSPEND = - 998"

definition NONE :: int where "NONE = 27342"
definition FS_PROC_NR :: int where "FS_PROC_NR = 1"
definition RS_PROC_NR :: int where "RS_PROC_NR = 2"

definition CANCEL :: int where "CANCEL = 1024"
definition DEV_READ :: int where "DEV_READ = 1027"
definition DEV_WRITE :: int where "DEV_WRITE = 1028"
definition DEV_IOCTL :: int where "DEV_IOCTL = 1029"
definition DEV_OPEN :: int where "DEV_OPEN = 1030"
definition DEV_CLOSE :: int where "DEV_CLOSE = 1031"
definition DEV_SCATTER :: int where "DEV_SCATTER = 1032"
definition DEV_GATHER :: int where "DEV_GATHER = 1033"
definition DEV_STATUS :: int where "DEV_STATUS = 1037"
definition DEV_READ_S :: int where "DEV_READ_S = 1044"
definition DEV_WRITE_S :: int where "DEV_WRITE_S = 1045"
definition DEV_SCATTER_S :: int where "DEV_SCATTER_S = 1046"
definition DEV_GATHER_S :: int where "DEV_GATHER_S = 1047"
definition DEV_IOCTL_S :: int where "DEV_IOCTL_S = 1048"
definition DEV_REVIVE :: int where "DEV_REVIVE = 1282"
definition DEV_IO_READY :: int where "DEV_IO_READY = 1283"
definition DEV_NO_STATUS :: int where "DEV_NO_STATUS = 1284"
definition DEVCTL :: int where "DEVCTL = 81"

definition READ :: int where "READ = 3"
definition WRITE :: int where "WRITE = 4"
definition R_BIT :: int where "R_BIT = 4"
definition W_BIT :: int where "W_BIT = 2"

definition O_NONBLOCK :: int where "O_NONBLOCK = 2048"


definition CPF_READ :: int where "CPF_READ = 1"
definition CPF_WRITE :: int where "CPF_WRITE = 2"
definition GRANT_INVALID :: int where "GRANT_INVALID = - 1"
definition GRANT_VALID :: "int \<Rightarrow> bool" where "GRANT_VALID g = (g > GRANT_INVALID)"

definition PID_FREE :: int where "PID_FREE = 0"
definition SUSPENDED :: int where "SUSPENDED = 1"
definition TRUE :: int where "TRUE = 1"

definition NR_IOREQS :: int where "NR_IOREQS = 64"

text \<open>
  A device number packs the major number in its top byte and the minor number in its
  bottom byte: \<^verbatim>\<open>(dev >> MAJOR) & BYTE\<close> and \<^verbatim>\<open>(dev >> MINOR) & BYTE\<close>.
\<close>

definition MAJOR :: nat where "MAJOR = 8"
definition MINOR :: nat where "MINOR = 0"
definition BYTE :: int where "BYTE = 255"

definition major_of :: "int \<Rightarrow> int" where
  "major_of dev = (drop_bit MAJOR dev) AND BYTE"

definition minor_of :: "int \<Rightarrow> int" where
  "minor_of dev = (drop_bit MINOR dev) AND BYTE"


definition to_vir_bytes :: "int \<Rightarrow> int" where
  "to_vir_bytes x = x mod 2 ^ 32"


definition sizeof_iovec_t :: int where "sizeof_iovec_t = 8"

subsection \<open>Messages\<close>

text \<open>
  Modelled from the spec: the message type is declared in the headers.  A message to or
  from a driver has a source, a type, and the slots of the \<open>m2\<close> layout.  The field
  names of \<^verbatim>\<open>minix/com.h\<close> denote these slots, and a request field shares its slot with
  a reply field: \<open>DEVICE\<close> and \<open>REP_ENDPT\<close> are \<open>m2_i1\<close>, \<open>IO_ENDPT\<close> and \<open>REP_STATUS\<close>
  are \<open>m2_i2\<close>, \<open>COUNT\<close> and \<open>REP_IO_GRANT\<close> are \<open>m2_i3\<close>, \<open>ADDRESS\<close> and \<open>IO_GRANT\<close> are
  \<open>m2_p1\<close>.  (The spec, section 6: slots for type, device, endpoint, count, position,
  high position and grant; a reply carries type, target endpoint and status.)
\<close>

record message =
  m_source :: int
  m_type :: int
  m2_i1 :: int
  m2_i2 :: int
  m2_i3 :: int
  m2_l1 :: int
  m2_l2 :: int
  m2_p1 :: int

abbreviation DEVICE :: "message \<Rightarrow> int" where "DEVICE m \<equiv> m2_i1 m"
abbreviation IO_ENDPT :: "message \<Rightarrow> int" where "IO_ENDPT m \<equiv> m2_i2 m"
abbreviation COUNT :: "message \<Rightarrow> int" where "COUNT m \<equiv> m2_i3 m"
abbreviation POSITION :: "message \<Rightarrow> int" where "POSITION m \<equiv> m2_l1 m"
abbreviation HIGHPOS :: "message \<Rightarrow> int" where "HIGHPOS m \<equiv> m2_l2 m"
abbreviation ADDRESS :: "message \<Rightarrow> int" where "ADDRESS m \<equiv> m2_p1 m"
abbreviation IO_GRANT :: "message \<Rightarrow> int" where "IO_GRANT m \<equiv> m2_p1 m"
abbreviation REP_ENDPT :: "message \<Rightarrow> int" where "REP_ENDPT m \<equiv> m2_i1 m"
abbreviation REP_STATUS :: "message \<Rightarrow> int" where "REP_STATUS m \<equiv> m2_i2 m"
abbreviation REP_IO_GRANT :: "message \<Rightarrow> int" where "REP_IO_GRANT m \<equiv> m2_i3 m"
abbreviation DEV_MINOR :: "message \<Rightarrow> int" where "DEV_MINOR m \<equiv> m2_i1 m"
abbreviation DEV_SEL_OPS :: "message \<Rightarrow> int" where "DEV_SEL_OPS m \<equiv> m2_i2 m"

text \<open>
  A message from the reincarnation server, as \<open>dev_bio\<close> reads it while it waits for a
  new driver: the type and the five arguments of \<open>fs_devctl\<close>.
\<close>

record rs_message =
  rs_m_source :: int
  rs_m_type :: int
  ctl_req :: int
  dev_nr :: int
  driver_nr :: int
  dev_style :: int
  m_force :: int

subsection \<open>The tables of the file server\<close>

datatype opcl_handler = Gen_opcl | Tty_opcl | Ctty_opcl | Clone_opcl | No_dev

datatype io_handler = Gen_io | Ctty_io | No_dev_io

record dmap_entry =
  dmap_opcl :: opcl_handler
  dmap_io :: io_handler
  dmap_driver :: int

record fproc_entry =
  fp_pid :: int
  fp_endpoint :: int
  fp_suspended :: int
  fp_task :: int
  fp_grant :: int
  fp_ioproc :: int
  fp_sesldr :: int
  fp_tty :: int
  fp_filp :: "nat option list"

record filp_entry =
  filp_ino :: "nat option"

text \<open>
  Everything that crosses the boundary of the file is recorded, in order, in a trace:
  the messages handed to the kernel, the grants minted and revoked, and the calls to
  routines of other files of the server.
\<close>

datatype event =
    Ev_sendrec int message
  | Ev_grant_magic int int int int int int
  | Ev_grant_direct int int int int int
  | Ev_revoke int
  | Ev_suspend int
  | Ev_revive int int
  | Ev_select_notified int int int
  | Ev_unmap int
  | Ev_alloc_inode int int "nat option"
  | Ev_put_inode "nat option"
  | Ev_receive int
  | Ev_send int int

text \<open>
  The state of the server as the file reads and writes it: the driver map \<open>dmap\<close>
  (declared \<^verbatim>\<open>dmap[NR_DEVICES]\<close>), the process table \<open>fproc\<close> (\<^verbatim>\<open>fproc[NR_PROCS]\<close>), the
  pointer \<open>fp\<close> to the caller's slot (\<open>None\<close> is \<^verbatim>\<open>NULL\<close>), the filp table, the first zone
  of every inode, the I/O vectors in the server's memory (by address and index, an
  entry being \<open>(iov_addr, iov_size)\<close>, and \<open>None\<close> where the server's address space has
  nothing mapped: address \<^verbatim>\<open>NULL\<close>, or an address that is not the server's), the two
  static arrays \<^verbatim>\<open>gids\<close>, the fields of the request message \<open>m_in\<close> that the file
  reads, and the globals \<open>call_nr\<close>, \<open>err_code\<close> and \<open>root_dev\<close>.  The static array
  \<^verbatim>\<open>new_iovec\<close> of \<open>safe_io_conversion\<close> lies in that memory, at the address the
  environment gives.
\<close>

record fs_state =
  dmap :: "dmap_entry list"
  fproc :: "fproc_entry list"
  fp :: "nat option"
  filp :: "filp_entry list"
  i_zone0 :: "nat \<Rightarrow> int"
  iov_mem :: "int \<Rightarrow> nat \<Rightarrow> (int \<times> int) option"
  dev_io_gids :: "nat \<Rightarrow> int"
  dev_bio_gids :: "nat \<Rightarrow> int"
  m_in_fd :: int
  m_in_REQUEST :: int
  call_nr :: int
  err_code :: int
  root_dev :: int
  trace :: "event list"


text \<open>
  What the rest of the system does is a parameter of the model: the kernel's answer to
  \<^verbatim>\<open>sendrec\<close> (a result code and, when that is \<open>OK\<close>, the reply that overwrites the
  message), the grant identifiers that \<^verbatim>\<open>cpf_grant_magic\<close> and \<^verbatim>\<open>cpf_grant_direct\<close> hand
  out, the endpoint check \<^verbatim>\<open>isokendpt\<close> (the slot of a valid endpoint), the inode
  allocator (a pointer, or \<^verbatim>\<open>NIL_INODE\<close> with the error code it leaves in \<open>err_code\<close>),
  the macros of \<^verbatim>\<open>minix/ioctl.h\<close>, the indeterminate content of an uninitialised
  message on the stack, the address of the static array \<^verbatim>\<open>new_iovec\<close>, and the routines
  \<^verbatim>\<open>revive\<close>, \<^verbatim>\<open>select_notified\<close>, \<^verbatim>\<open>receive\<close>, \<^verbatim>\<open>send\<close> and \<^verbatim>\<open>fs_devctl\<close>.  An answer may
  depend on everything that happened before (the trace).
\<close>

record env =
  env_sendrec :: "event list \<Rightarrow> int \<Rightarrow> message \<Rightarrow> int \<times> message"
  env_grant_magic :: "event list \<Rightarrow> int \<Rightarrow> int \<Rightarrow> int \<Rightarrow> int \<Rightarrow> int \<Rightarrow> int"
  env_grant_direct :: "event list \<Rightarrow> int \<Rightarrow> int \<Rightarrow> int \<Rightarrow> int \<Rightarrow> int"
  env_isokendpt :: "int \<Rightarrow> nat option"
  env_alloc_inode :: "event list \<Rightarrow> int \<Rightarrow> int \<Rightarrow> nat option \<times> int"
  env_ioctl_ior :: "int \<Rightarrow> bool"
  env_ioctl_iow :: "int \<Rightarrow> bool"
  env_ioctl_big :: "int \<Rightarrow> bool"
  env_ioctl_size :: "int \<Rightarrow> int"
  env_ioctl_size_big :: "int \<Rightarrow> int"
  env_uninit :: message
  env_new_iovec :: int
  env_revive :: "int \<Rightarrow> int \<Rightarrow> fs_state \<Rightarrow> fs_state"
  env_select_notified :: "int \<Rightarrow> int \<Rightarrow> int \<Rightarrow> fs_state \<Rightarrow> fs_state"
  env_receive :: "event list \<Rightarrow> int \<Rightarrow> int \<times> rs_message"
  env_send :: "event list \<Rightarrow> int \<Rightarrow> int \<Rightarrow> int"
  env_fs_devctl :: "int \<Rightarrow> int \<Rightarrow> int \<Rightarrow> int \<Rightarrow> int \<Rightarrow> fs_state \<Rightarrow> int \<times> fs_state"

text \<open>
  A routine returns a value and a state, or stops the server with \<^verbatim>\<open>panic\<close> (or a
  failed \<^verbatim>\<open>assert\<close>), or has no defined behaviour in C: it dereferences \<^verbatim>\<open>NULL\<close>,
  reads a table out of its bounds, or reads or writes memory that is not mapped
  (\<open>Fault\<close>).  A routine that may also run forever
  returns an \<open>option\<close> of this, \<open>None\<close> for not returning.
\<close>

datatype 'a outcome = Ret 'a fs_state | Panic string fs_state | Fault

definition and_then ::
  "'a outcome option \<Rightarrow> ('a \<Rightarrow> fs_state \<Rightarrow> 'b outcome option) \<Rightarrow> 'b outcome option" where
  "and_then x f =
     (case x of
        None \<Rightarrow> None
      | Some (Ret a s) \<Rightarrow> f a s
      | Some (Panic msg s) \<Rightarrow> Some (Panic msg s)
      | Some Fault \<Rightarrow> Some Fault)"

definition emit :: "event \<Rightarrow> fs_state \<Rightarrow> fs_state" where
  "emit ev s = s\<lparr>trace := trace s @ [ev]\<rparr>"

definition dmap_at :: "fs_state \<Rightarrow> int \<Rightarrow> dmap_entry option" where
  "dmap_at s i = (if 0 \<le> i \<and> nat i < length (dmap s) then Some (dmap s ! nat i) else None)"

definition cur_fp :: "fs_state \<Rightarrow> nat option" where
  "cur_fp s = (case fp s of None \<Rightarrow> None
               | Some i \<Rightarrow> if i < length (fproc s) then Some i else None)"

subsection \<open>The kernel and the grant library\<close>

definition sendrec :: "env \<Rightarrow> int \<Rightarrow> message \<Rightarrow> fs_state \<Rightarrow> (int \<times> message) \<times> fs_state" where
  "sendrec e task mess s =
     (let (r, reply) = env_sendrec e (trace s) task mess
      in ((r, if r = OK then reply else mess), emit (Ev_sendrec task mess) s))"

definition cpf_grant_magic ::
  "env \<Rightarrow> int \<Rightarrow> int \<Rightarrow> int \<Rightarrow> int \<Rightarrow> int \<Rightarrow> fs_state \<Rightarrow> int \<times> fs_state" where
  "cpf_grant_magic e driver owner addr bytes access s =
     (let g = env_grant_magic e (trace s) driver owner addr bytes access
      in (g, emit (Ev_grant_magic driver owner addr bytes access g) s))"

definition cpf_grant_direct ::
  "env \<Rightarrow> int \<Rightarrow> int \<Rightarrow> int \<Rightarrow> int \<Rightarrow> fs_state \<Rightarrow> int \<times> fs_state" where
  "cpf_grant_direct e driver addr bytes access s =
     (let g = env_grant_direct e (trace s) driver addr bytes access
      in (g, emit (Ev_grant_direct driver addr bytes access g) s))"

definition cpf_revoke :: "int \<Rightarrow> fs_state \<Rightarrow> fs_state" where
  "cpf_revoke g s = emit (Ev_revoke g) s"

text \<open>
  Modelled from the spec: \<^verbatim>\<open>dmap_unmap_by_endpt\<close> is in \<^verbatim>\<open>dmap.c\<close>.  The spec, section 4.2:
  it clears every binding that references a dead endpoint; section 3: a binding whose
  endpoint is \<open>NONE\<close> has both handlers set to their absent variants.
\<close>

definition dmap_unmap_by_endpt :: "int \<Rightarrow> fs_state \<Rightarrow> fs_state" where
  "dmap_unmap_by_endpt proc_nr_e s =
     emit (Ev_unmap proc_nr_e)
       (s\<lparr>dmap := map (\<lambda>dp. if dmap_driver dp = proc_nr_e
                             then \<lparr>dmap_opcl = No_dev, dmap_io = No_dev_io, dmap_driver = NONE\<rparr>
                             else dp) (dmap s)\<rparr>)"

text \<open>
  Modelled from the spec: \<^verbatim>\<open>suspend\<close> is in \<^verbatim>\<open>pipe.c\<close>.  The spec, sections 3 and 4.5: it
  records in the caller's process record the driver that holds the caller;
  \<open>suspended_ep\<close> below reads the record back as \<open>fp_suspended = SUSPENDED\<close> and
  \<open>fp_task = - driver\<close>.
\<close>

definition suspend :: "int \<Rightarrow> nat \<Rightarrow> fs_state \<Rightarrow> fs_state" where
  "suspend task i s =
     emit (Ev_suspend task)
       (s\<lparr>fproc := (fproc s)[i := (fproc s ! i)\<lparr>fp_suspended := SUSPENDED, fp_task := - task\<rparr>]\<rparr>)"


subsection \<open>suspended_ep and dev_status\<close>

definition suspended_ep :: "int \<Rightarrow> int \<Rightarrow> fs_state \<Rightarrow> int" where
  "suspended_ep driver g s =
     (case find (\<lambda>rfp. fp_pid rfp \<noteq> PID_FREE \<and> fp_suspended rfp = SUSPENDED \<and>
                         fp_task rfp = - driver \<and> fp_grant rfp = g) (fproc s) of
        Some rfp \<Rightarrow> fp_endpoint rfp
      | None \<Rightarrow> NONE)"

text \<open>
  The \<^verbatim>\<open>do ... while(get_more)\<close> loop of \<open>dev_status\<close>.  The message \<open>st\<close> is declared
  outside the loop and keeps the last reply; \<open>d\<close> is the major found by the search.
  The loop goes on for as long as the driver answers with \<open>DEV_REVIVE\<close> or
  \<open>DEV_IO_READY\<close>.
\<close>

partial_function (option) dev_status_loop ::
  "env \<Rightarrow> message \<Rightarrow> nat \<Rightarrow> message \<Rightarrow> fs_state \<Rightarrow> unit outcome option" where
  "dev_status_loop e m d st s =
     (case sendrec e (m_source m) (st\<lparr>m_type := DEV_STATUS\<rparr>) s of
        ((r, st1), s1) \<Rightarrow>
          if r \<noteq> OK then
            (if r = EDEADSRCDST then Some (Ret () s1)
             else if r = EDSTDIED then Some (Ret () s1)
             else if r = ESRCDIED then Some (Ret () s1)
             else Some (Panic ''couldn't sendrec for DEV_STATUS'' s1))
          else if m_type st1 = DEV_REVIVE then
            (if REP_ENDPT st1 = FS_PROC_NR then
               (if suspended_ep (m_source m) (REP_IO_GRANT st1) s1 = NONE
                then dev_status_loop e m d st1 s1
                else dev_status_loop e m d st1
                       (env_revive e (suspended_ep (m_source m) (REP_IO_GRANT st1) s1)
                          (REP_STATUS st1)
                          (emit (Ev_revive (suspended_ep (m_source m) (REP_IO_GRANT st1) s1)
                                   (REP_STATUS st1)) s1)))
             else dev_status_loop e m d st1
                    (env_revive e (REP_ENDPT st1) (REP_STATUS st1)
                       (emit (Ev_revive (REP_ENDPT st1) (REP_STATUS st1)) s1)))
          else if m_type st1 = DEV_IO_READY then
            dev_status_loop e m d st1
              (env_select_notified e (int d) (DEV_MINOR st1) (DEV_SEL_OPS st1)
                 (emit (Ev_select_notified (int d) (DEV_MINOR st1) (DEV_SEL_OPS st1)) s1))
          else Some (Ret () s1))"

definition dev_status :: "env \<Rightarrow> message \<Rightarrow> fs_state \<Rightarrow> unit outcome option" where
  "dev_status e m s =
     (case find (\<lambda>d. dmap_driver (dmap s ! d) \<noteq> NONE \<and> dmap_driver (dmap s ! d) = m_source m)
             [0 ..< length (dmap s)] of
        None \<Rightarrow> Some (Ret () s)
      | Some d \<Rightarrow> dev_status_loop e m d (env_uninit e) s)"

subsection \<open>safe_io_conversion and safe_io_cleanup\<close>

text \<open>
  What \<open>safe_io_conversion\<close> writes through its pointer arguments, and its return value.
\<close>

record conv =
  c_ret :: int
  c_gid :: int
  c_op :: int
  c_gids :: "nat \<Rightarrow> int"
  c_io_ept :: int
  c_buf :: int
  c_vec_grants :: nat
  c_pos :: int

text \<open>
  The loop over the entries of the caller's vector \<open>v\<close> (lines 221 to 234); \<open>nv\<close> is the
  address of \<^verbatim>\<open>new_iovec\<close>, \<open>op\<close> the operation after its change to the safe variant.
  Each pass reads \<^verbatim>\<open>v[j].iov_addr\<close> and \<^verbatim>\<open>v[j].iov_size\<close> for the arguments of the call,
  stores the grant in \<^verbatim>\<open>gids[j]\<close> and \<^verbatim>\<open>new_iovec[j].iov_addr\<close>, and after the check of
  the grant reads \<^verbatim>\<open>v[j].iov_size\<close> again for \<^verbatim>\<open>new_iovec[j].iov_size\<close>.  The pointer \<open>v\<close>
  is the caller's \<open>buf\<close>, dereferenced in the server's own address space.
\<close>

function grant_vector ::
  "env \<Rightarrow> int \<Rightarrow> int \<Rightarrow> int \<Rightarrow> int \<Rightarrow> int \<Rightarrow> nat \<Rightarrow> (nat \<Rightarrow> int) \<Rightarrow> nat \<Rightarrow> fs_state
     \<Rightarrow> ((nat \<Rightarrow> int) \<times> nat) outcome" where
  "grant_vector e driver op v nv bytes j gids vec_grants s =
     (if int j < bytes then
        (if int j \<ge> NR_IOREQS then Panic ''vec too big'' s
         else
           (case iov_mem s v j of
              None \<Rightarrow> Fault
            | Some (addr, sz) \<Rightarrow>
                (case cpf_grant_direct e driver addr sz
                        (if op = DEV_GATHER_S then CPF_WRITE else CPF_READ) s of
                   (g, s1) \<Rightarrow>
                     (case iov_mem s1 nv j of
                        None \<Rightarrow> Fault
                      | Some (addr0, sz0) \<Rightarrow>
                          if \<not> GRANT_VALID g
                          then Panic ''grant to iovec buf failed''
                                 (s1\<lparr>iov_mem := (iov_mem s1)
                                      (nv := (iov_mem s1 nv)(j := Some (g, sz0)))\<rparr>)
                          else
                            (case ((iov_mem s1)(nv := (iov_mem s1 nv)(j := Some (g, sz0)))) v j of
                               None \<Rightarrow> Fault
                             | Some (addr2, sz2) \<Rightarrow>
                                 grant_vector e driver op v nv bytes (Suc j) (gids(j := g))
                                   (Suc vec_grants)
                                   (s1\<lparr>iov_mem := (iov_mem s1)
                                        (nv := (iov_mem s1 nv)(j := Some (g, sz2)))\<rparr>))))))
      else Ret (gids, vec_grants) s)"
  by pat_completeness auto
termination
  by (relation "measure (\<lambda>(e, driver, op, v, nv, bytes, j, gids, vec_grants, s). nat (bytes - int j))")
     auto

declare grant_vector.simps [simp del]

text \<open>Lines 260 to 271: the end of \<open>safe_io_conversion\<close>, after the \<^verbatim>\<open>switch\<close>.\<close>

definition conversion_result :: "conv \<Rightarrow> fs_state \<Rightarrow> conv outcome" where
  "conversion_result c s =
     (if GRANT_VALID (c_gid c) then Ret (c\<lparr>c_io_ept := FS_PROC_NR, c_ret := 1\<rparr>) s
      else Ret (c\<lparr>c_ret := 0\<rparr>) s)"

definition safe_io_conversion ::
  "env \<Rightarrow> int \<Rightarrow> int \<Rightarrow> (nat \<Rightarrow> int) \<Rightarrow> int \<Rightarrow> int \<Rightarrow> int \<Rightarrow> int \<Rightarrow> fs_state \<Rightarrow> conv outcome" where
  "safe_io_conversion e driver op gids io_ept buf bytes pos s =
     (let c = \<lparr>c_ret = 0, c_gid = GRANT_INVALID, c_op = op, c_gids = gids, c_io_ept = io_ept,
               c_buf = buf, c_vec_grants = 0, c_pos = pos\<rparr>
      in
      if op = DEV_READ \<or> op = DEV_WRITE then
        (let op1 = (if op = DEV_READ then DEV_READ_S else DEV_WRITE_S) in
         case cpf_grant_magic e driver io_ept buf bytes
                (if op1 = DEV_READ_S then CPF_WRITE else CPF_READ) s of
           (g, s1) \<Rightarrow>
             if g < 0 then Panic ''cpf_grant_magic of buffer failed'' s1
             else conversion_result (c\<lparr>c_op := op1, c_gid := g\<rparr>) s1)
      else if op = DEV_GATHER \<or> op = DEV_SCATTER then
        (let op1 = (if op = DEV_GATHER then DEV_GATHER_S else DEV_SCATTER_S) in
         case cpf_grant_direct e driver (env_new_iovec e)
                (to_vir_bytes (bytes * sizeof_iovec_t)) (CPF_READ OR CPF_WRITE) s of
           (g, s1) \<Rightarrow>
             if g < 0 then Panic ''cpf_grant_direct of vector failed'' s1
             else
               (case grant_vector e driver op1 buf (env_new_iovec e) bytes 0 gids 0 s1 of
                  Ret (gids1, vec_grants) s2 \<Rightarrow>
                    conversion_result
                      (c\<lparr>c_op := op1, c_gid := g, c_gids := gids1, c_vec_grants := vec_grants,
                         c_buf := env_new_iovec e\<rparr>) s2
                | Panic msg s2 \<Rightarrow> Panic msg s2
                | Fault \<Rightarrow> Fault))
      else if op = DEV_IOCTL then
        (let access = (if env_ioctl_ior e (m_in_REQUEST s) then CPF_WRITE else 0) OR
                      (if env_ioctl_iow e (m_in_REQUEST s) then CPF_READ else 0);
             size = (if env_ioctl_big e (m_in_REQUEST s) then env_ioctl_size_big e (m_in_REQUEST s)
                     else env_ioctl_size e (m_in_REQUEST s))
         in
         case cpf_grant_magic e driver io_ept buf size access s of
           (g, s1) \<Rightarrow>
             if g < 0 then Panic ''cpf_grant_magic failed (ioctl)'' s1
             else conversion_result (c\<lparr>c_pos := io_ept, c_op := DEV_IOCTL_S, c_gid := g\<rparr>) s1)
      else conversion_result c s)"

definition safe_io_cleanup :: "int \<Rightarrow> (nat \<Rightarrow> int) \<Rightarrow> nat \<Rightarrow> fs_state \<Rightarrow> fs_state" where
  "safe_io_cleanup gid gids gids_size s =
     fold (\<lambda>j. cpf_revoke (gids j)) [0 ..< gids_size] (cpf_revoke gid s)"

subsection \<open>The I/O handlers of the driver map: gen_io, ctty_io, no_dev_io\<close>

definition gen_io :: "env \<Rightarrow> int \<Rightarrow> message \<Rightarrow> fs_state \<Rightarrow> (int \<times> message) outcome" where
  "gen_io e task_nr mess s =
     (case sendrec e task_nr mess s of
        ((r, mess1), s1) \<Rightarrow>
          if r \<noteq> OK then
            (if r = EDEADSRCDST \<or> r = EDSTDIED \<or> r = ESRCDIED
             then Ret (r, mess1) (dmap_unmap_by_endpt task_nr s1)
             else if r = ELOCKED then Ret (r, mess1) s1
             else Panic ''call_task: can't send/receive'' s1)
          else if REP_ENDPT mess1 \<noteq> IO_ENDPT mess then Ret (EIO, mess1) s1
          else Ret (OK, mess1) s1)"

definition no_dev_io :: "int \<Rightarrow> message \<Rightarrow> fs_state \<Rightarrow> (int \<times> message) outcome" where
  "no_dev_io proc m s = Ret (EIO, m) s"

text \<open>
  \<open>call_io h task m\<close> is the call \<^verbatim>\<open>(*dp->dmap_io)(task, &m)\<close> through the function
  pointer \<open>h\<close>; it returns the handler's result and the message as the handler leaves
  it.  \<open>ctty_io\<close> calls through the pointer of the controlling terminal's binding
  again, so it is defined together with the call: the branch \<open>Ctty_io\<close> is the body
  of \<open>ctty_io\<close> (lines 707 to 728).  If that binding's handler is \<open>ctty_io\<close> itself, the
  C code recurses without end.
\<close>

partial_function (option) call_io ::
  "env \<Rightarrow> io_handler \<Rightarrow> int \<Rightarrow> message \<Rightarrow> fs_state \<Rightarrow> (int \<times> message) outcome option" where
  "call_io e h task_nr mess s =
     (case h of
        Gen_io \<Rightarrow> Some (gen_io e task_nr mess s)
      | No_dev_io \<Rightarrow> Some (no_dev_io task_nr mess s)
      | Ctty_io \<Rightarrow>
          (case cur_fp s of
             None \<Rightarrow> Some Fault
           | Some i \<Rightarrow>
               if fp_tty (fproc s ! i) = 0 then Some (Ret (OK, mess\<lparr>m2_i2 := EIO\<rparr>) s)
               else
                 (case dmap_at s (major_of (fp_tty (fproc s ! i))) of
                    None \<Rightarrow> Some Fault
                  | Some dp \<Rightarrow>
                      if dmap_driver dp = NONE
                      then Some (Ret (EIO, mess\<lparr>m2_i1 := minor_of (fp_tty (fproc s ! i))\<rparr>) s)
                      else if env_isokendpt e (dmap_driver dp) = None
                      then Some (Ret (EIO, mess\<lparr>m2_i1 := minor_of (fp_tty (fproc s ! i))\<rparr>) s)
                      else
                        Option.bind
                          (call_io e (dmap_io dp) (dmap_driver dp)
                             (mess\<lparr>m2_i1 := minor_of (fp_tty (fproc s ! i))\<rparr>) s)
                          (\<lambda>res. case res of
                                    Ret (r, mess1) s1 \<Rightarrow> Some (Ret (OK, mess1) s1)
                                  | Panic msg s1 \<Rightarrow> Some (Panic msg s1)
                                  | Fault \<Rightarrow> Some Fault))))"

definition ctty_io :: "env \<Rightarrow> int \<Rightarrow> message \<Rightarrow> fs_state \<Rightarrow> (int \<times> message) outcome option" where
  "ctty_io e task_nr mess s = call_io e Ctty_io task_nr mess s"


subsection \<open>dev_bio\<close>

text \<open>
  Lines 333 to 359: one pass of the loop of \<open>dev_bio\<close> against the binding \<open>dp\<close>, from
  the set-up of the message to the cleanup after the call.  It yields the message as
  the handler left it, \<open>buf_used\<close> and \<open>pos\<close>.  The message \<open>m\<close> of \<open>dev_bio\<close> is
  declared outside the loop; every slot but \<open>m_source\<close> is assigned in each pass.
\<close>

definition dev_bio_attempt ::
  "env \<Rightarrow> int \<Rightarrow> int \<Rightarrow> int \<Rightarrow> int \<Rightarrow> int \<Rightarrow> int \<Rightarrow> message \<Rightarrow> dmap_entry \<Rightarrow> fs_state
     \<Rightarrow> (message \<times> int \<times> int) outcome option" where
  "dev_bio_attempt e op dev proc_e buf pos bytes m dp s =
     (case safe_io_conversion e (dmap_driver dp) op (dev_bio_gids s) proc_e buf
             (to_vir_bytes bytes) pos s of
        Fault \<Rightarrow> Some Fault
      | Panic msg s1 \<Rightarrow> Some (Panic msg s1)
      | Ret c s1 \<Rightarrow>
          and_then
            (call_io e (dmap_io dp) (dmap_driver dp)
               (m\<lparr>m2_i2 := c_io_ept c,
                  m2_p1 := (if c_ret c \<noteq> 0 then c_gid c else buf),
                  m_type := c_op c,
                  m2_i1 := minor_of dev,
                  m2_l1 := c_pos c,
                  m2_i3 := bytes,
                  m2_l2 := 0\<rparr>)
               (s1\<lparr>dev_bio_gids := c_gids c\<rparr>))
            (\<lambda>(r, m1) s2.
               Some (Ret (m1, c_buf c, c_pos c)
                       (if c_ret c \<noteq> 0
                        then safe_io_cleanup (c_gid c) (c_gids c) (c_vec_grants c) s2
                        else s2))))"

text \<open>
  Lines 363 to 393: the driver has vanished; \<open>dev_bio\<close> serves the reincarnation server
  until the major has a driver again.  It yields the source of the last message
  received, which stays in \<open>m\<close>.
\<close>

partial_function (option) dev_bio_wait :: "env \<Rightarrow> int \<Rightarrow> fs_state \<Rightarrow> int outcome option" where
  "dev_bio_wait e major s =
     (case env_receive e (trace s) RS_PROC_NR of
        (r, rm) \<Rightarrow>
          if r \<noteq> OK then Some (Panic ''dev_bio: unable to receive from RS'' (emit (Ev_receive RS_PROC_NR) s))
          else if rs_m_type rm = DEVCTL then
            (case env_fs_devctl e (ctl_req rm) (dev_nr rm) (driver_nr rm) (dev_style rm)
                    (m_force rm) (emit (Ev_receive RS_PROC_NR) s) of
               (r1, s1) \<Rightarrow>
                 if env_send e (trace s1) RS_PROC_NR r1 \<noteq> OK
                 then Some (Panic ''dev_bio: unable to send to RS'' (emit (Ev_send RS_PROC_NR r1) s1))
                 else
                   (case dmap_at (emit (Ev_send RS_PROC_NR r1) s1) major of
                      None \<Rightarrow> Some Fault
                    | Some dp \<Rightarrow>
                        if dmap_driver dp \<noteq> NONE
                        then Some (Ret (rs_m_source rm) (emit (Ev_send RS_PROC_NR r1) s1))
                        else dev_bio_wait e major (emit (Ev_send RS_PROC_NR r1) s1)))
          else Some (Panic ''dev_bio: got message from RS, type'' (emit (Ev_receive RS_PROC_NR) s)))"

text \<open>
  Line 404: \<^verbatim>\<open>memcpy(buf, buf_used, bytes * sizeof(iovec_t))\<close> copies whole vector
  entries, and needs every entry it reads and every entry it writes to be mapped
  (\<open>None\<close> is the fault).
\<close>

definition memcpy_iovec :: "int \<Rightarrow> int \<Rightarrow> int \<Rightarrow> fs_state \<Rightarrow> fs_state option" where
  "memcpy_iovec buf buf_used bytes s =
     (let n = nat (to_vir_bytes (bytes * sizeof_iovec_t) div sizeof_iovec_t) in
      if list_all (\<lambda>j. iov_mem s buf_used j \<noteq> None \<and> iov_mem s buf j \<noteq> None) [0 ..< n]
      then Some (s\<lparr>iov_mem := (iov_mem s)
                    (buf := (\<lambda>j. if j < n then iov_mem s buf_used j else iov_mem s buf j))\<rparr>)
      else None)"

text \<open>The \<^verbatim>\<open>for (;;)\<close> loop of \<open>dev_bio\<close> (lines 319 to 408).\<close>

partial_function (option) dev_bio_loop ::
  "env \<Rightarrow> int \<Rightarrow> int \<Rightarrow> int \<Rightarrow> int \<Rightarrow> int \<Rightarrow> int \<Rightarrow> message \<Rightarrow> fs_state \<Rightarrow> int outcome option" where
  "dev_bio_loop e op dev proc_e buf pos bytes m s =
     (case dmap_at s (major_of dev) of
        None \<Rightarrow> Some Fault
      | Some dp \<Rightarrow>
          if dmap_driver dp = NONE then Some (Ret ENXIO s)
          else
            Option.bind (dev_bio_attempt e op dev proc_e buf pos bytes m dp s)
              (\<lambda>res. case res of
                 Fault \<Rightarrow> Some Fault
               | Panic msg s1 \<Rightarrow> Some (Panic msg s1)
               | Ret (m1, buf_used, pos1) s1 \<Rightarrow>
                   (case dmap_at s1 (major_of dev) of
                      None \<Rightarrow> Some Fault
                    | Some dp1 \<Rightarrow>
                        if dmap_driver dp1 = NONE then
                          Option.bind (dev_bio_wait e (major_of dev) s1)
                            (\<lambda>w. case w of
                               Fault \<Rightarrow> Some Fault
                             | Panic msg s2 \<Rightarrow> Some (Panic msg s2)
                             | Ret src s2 \<Rightarrow>
                                 dev_bio_loop e op dev proc_e buf pos1 bytes
                                   (m1\<lparr>m_source := src\<rparr>) s2)
                        else if REP_STATUS m1 = SUSPEND
                        then Some (Panic ''dev_bio: driver returned SUSPEND'' s1)
                        else if buf \<noteq> buf_used then
                          (case memcpy_iovec buf buf_used bytes s1 of
                             None \<Rightarrow> Some Fault
                           | Some s2 \<Rightarrow> Some (Ret (REP_STATUS m1) s2))
                        else Some (Ret (REP_STATUS m1) s1))))"

definition dev_bio ::
  "env \<Rightarrow> int \<Rightarrow> int \<Rightarrow> int \<Rightarrow> int \<Rightarrow> int \<Rightarrow> int \<Rightarrow> fs_state \<Rightarrow> int outcome option" where
  "dev_bio e op dev proc_e buf pos bytes s =
     (if proc_e \<noteq> FS_PROC_NR then Some (Panic ''doing dev_bio for non-self'' s)
      else dev_bio_loop e op dev proc_e buf pos bytes (env_uninit e) s)"

subsection \<open>dev_io\<close>

text \<open>
  The locals of \<open>dev_io\<close> that are live after the call of the I/O handler at line 477.
\<close>

record dev_io_locals =
  l_gid :: int
  l_vec_grants :: nat
  l_safe :: int
  l_ioproc :: int
  l_dev_mess :: message

text \<open>
  Lines 432 to 477 of \<open>dev_io\<close>: the binding is resolved and checked, the request is
  converted, the message is built and handed to the binding's I/O handler.  The result
  is \<open>Inl r\<close> when \<open>dev_io\<close> returns \<open>r\<close> at once, and \<open>Inr\<close> of the locals after the call.
\<close>

definition dev_io_request ::
  "env \<Rightarrow> int \<Rightarrow> int \<Rightarrow> int \<Rightarrow> int \<Rightarrow> int \<Rightarrow> int \<Rightarrow> fs_state
     \<Rightarrow> (int + dev_io_locals) outcome option" where
  "dev_io_request e op dev proc_e buf pos bytes s =
     (case dmap_at s (major_of dev) of
        None \<Rightarrow> Some Fault
      | Some dp \<Rightarrow>
          if dmap_driver dp = NONE then Some (Ret (Inl ENXIO) s)
          else if env_isokendpt e (dmap_driver dp) = None then Some (Ret (Inl ENXIO) s)
          else
            (case safe_io_conversion e (dmap_driver dp) op (dev_io_gids s) proc_e buf
                    (to_vir_bytes bytes) pos s of
               Fault \<Rightarrow> Some Fault
             | Panic msg s1 \<Rightarrow> Some (Panic msg s1)
             | Ret c s1 \<Rightarrow>
                 if buf \<noteq> c_buf c
                 then Some (Panic ''dev_io: safe_io_conversion changed buffer''
                              (s1\<lparr>dev_io_gids := c_gids c\<rparr>))
                 else
                   and_then
                     (call_io e (dmap_io dp) (dmap_driver dp)
                        ((env_uninit e)
                           \<lparr>m2_i2 := c_io_ept c,
                            m2_p1 := (if c_ret c \<noteq> 0 then c_gid c else buf),
                            m_type := c_op c,
                            m2_i1 := minor_of dev,
                            m2_l1 := c_pos c,
                            m2_i3 := bytes,
                            m2_l2 := 0\<rparr>)
                        (s1\<lparr>dev_io_gids := c_gids c\<rparr>))
                     (\<lambda>(r, m1) s2.
                        Some (Ret (Inr \<lparr>l_gid = c_gid c, l_vec_grants = c_vec_grants c,
                                        l_safe = c_ret c, l_ioproc = c_io_ept c,
                                        l_dev_mess = m1\<rparr>) s2))))"

text \<open>Lines 496 to 506: the \<open>CANCEL\<close> message of the non-blocking path.\<close>

definition cancel_mess :: "int \<Rightarrow> dev_io_locals \<Rightarrow> fs_state \<Rightarrow> message" where
  "cancel_mess dev l s =
     (l_dev_mess l)
       \<lparr>m_type := CANCEL,
        m2_i2 := l_ioproc l,
        m2_p1 := l_gid l,
        m2_i3 := (if call_nr s = READ then R_BIT else if call_nr s = WRITE then W_BIT else 0),
        m2_i1 := minor_of dev\<rparr>"

text \<open>Lines 479 to 522 of \<open>dev_io\<close>: what happens after the call of the I/O handler.\<close>

definition dev_io_reply ::
  "env \<Rightarrow> int \<Rightarrow> int \<Rightarrow> dev_io_locals \<Rightarrow> fs_state \<Rightarrow> int outcome option" where
  "dev_io_reply e dev flags l s =
     (case dmap_at s (major_of dev) of
        None \<Rightarrow> Some Fault
      | Some dp \<Rightarrow>
          if dmap_driver dp = NONE then
            Some (Ret EIO (if l_safe l \<noteq> 0
                           then safe_io_cleanup (l_gid l) (dev_io_gids s) (l_vec_grants l) s
                           else s))
          else if REP_STATUS (l_dev_mess l) = SUSPEND then
            (if l_vec_grants l > 0 then Some (Panic ''SUSPEND on vectored i/o'' s)
             else
               (case fp s of
                  None \<Rightarrow> Some (Panic ''SUSPEND on NULL fp'' s)
                | Some i \<Rightarrow>
                    if flags AND O_NONBLOCK \<noteq> 0 then
                      and_then (call_io e (dmap_io dp) (dmap_driver dp) (cancel_mess dev l s) s)
                        (\<lambda>(r, m1) s1.
                           Some (Ret (if REP_STATUS m1 = EINTR then EAGAIN else REP_STATUS m1)
                                   (if l_safe l \<noteq> 0
                                    then safe_io_cleanup (l_gid l) (dev_io_gids s1)
                                           (l_vec_grants l) s1
                                    else s1)))
                    else if i \<ge> length (fproc s) then Some Fault
                    else if GRANT_VALID (fp_grant (fproc (suspend (dmap_driver dp) i s) ! i))
                    then Some (Panic ''assert(!GRANT_VALID(fp->fp_grant))''
                                 (suspend (dmap_driver dp) i s))
                    else
                      Some (Ret SUSPEND
                              ((suspend (dmap_driver dp) i s)
                                 \<lparr>fproc := (fproc (suspend (dmap_driver dp) i s))
                                    [i := (fproc (suspend (dmap_driver dp) i s) ! i)
                                            \<lparr>fp_grant := l_gid l, fp_ioproc := l_ioproc l\<rparr>]\<rparr>))))
          else
            Some (Ret (REP_STATUS (l_dev_mess l))
                    (if l_safe l \<noteq> 0
                     then safe_io_cleanup (l_gid l) (dev_io_gids s) (l_vec_grants l) s
                     else s)))"

definition dev_io ::
  "env \<Rightarrow> int \<Rightarrow> int \<Rightarrow> int \<Rightarrow> int \<Rightarrow> int \<Rightarrow> int \<Rightarrow> int \<Rightarrow> fs_state \<Rightarrow> int outcome option" where
  "dev_io e op dev proc_e buf pos bytes flags s =
     and_then (dev_io_request e op dev proc_e buf pos bytes s)
       (\<lambda>x s1. case x of
                 Inl r \<Rightarrow> Some (Ret r s1)
               | Inr l \<Rightarrow> dev_io_reply e dev flags l s1)"

subsection \<open>The open/close handlers of the driver map\<close>




definition ctty_opcl :: "int \<Rightarrow> int \<Rightarrow> int \<Rightarrow> int \<Rightarrow> fs_state \<Rightarrow> int outcome" where
  "ctty_opcl op dev proc_e flags s =
     (case cur_fp s of
        None \<Rightarrow> Fault
      | Some i \<Rightarrow> Ret (if fp_tty (fproc s ! i) = 0 then ENXIO else OK) s)"





subsection \<open>dev_open and pm_setsid\<close>



text \<open>
  \<^verbatim>\<open>okendpt\<close> is \<^verbatim>\<open>isokendpt\<close> with a panic for an endpoint that is not valid.
\<close>

definition pm_setsid :: "env \<Rightarrow> int \<Rightarrow> fs_state \<Rightarrow> unit outcome" where
  "pm_setsid e proc_e s =
     (case env_isokendpt e proc_e of
        None \<Rightarrow> Panic ''okendpt'' s
      | Some slot \<Rightarrow>
          if slot \<ge> length (fproc s) then Fault
          else Ret () (s\<lparr>fproc := (fproc s)[slot := (fproc s ! slot)\<lparr>fp_sesldr := TRUE, fp_tty := 0\<rparr>]\<rparr>))"


subsection \<open>Reading a trace and a result\<close>

text \<open>
  The events that a run from state \<open>s\<close> to state \<open>s'\<close> added to the trace, and what they
  say: the grants minted, the grants revoked, the messages handed to \<^verbatim>\<open>sendrec\<close>.
\<close>

definition new_events :: "fs_state \<Rightarrow> fs_state \<Rightarrow> event list" where
  "new_events s s' = drop (length (trace s)) (trace s')"

fun minted_by :: "event \<Rightarrow> int list" where
  "minted_by (Ev_grant_magic driver owner addr bytes access g) = [g]"
| "minted_by (Ev_grant_direct driver addr bytes access g) = [g]"
| "minted_by ev = []"

fun revoked_by :: "event \<Rightarrow> int list" where
  "revoked_by (Ev_revoke g) = [g]"
| "revoked_by ev = []"

fun sent_by :: "event \<Rightarrow> (int \<times> message) list" where
  "sent_by (Ev_sendrec task m) = [(task, m)]"
| "sent_by ev = []"

definition minted :: "event list \<Rightarrow> int list" where
  "minted evs = concat (map minted_by evs)"

definition revoked :: "event list \<Rightarrow> int list" where
  "revoked evs = concat (map revoked_by evs)"

definition sent :: "event list \<Rightarrow> (int \<times> message) list" where
  "sent evs = concat (map sent_by evs)"

text \<open>The value a routine returns, if it returns; and whether it stops the server.\<close>

definition returned :: "'a outcome option \<Rightarrow> 'a option" where
  "returned x = (case x of Some (Ret a s) \<Rightarrow> Some a | _ \<Rightarrow> None)"

definition events_of :: "fs_state \<Rightarrow> 'a outcome option \<Rightarrow> event list" where
  "events_of s x =
     (case x of Some (Ret a s') \<Rightarrow> new_events s s' | Some (Panic msg s') \<Rightarrow> new_events s s'
      | _ \<Rightarrow> [])"

definition final_state :: "'a outcome option \<Rightarrow> fs_state option" where
  "final_state x = (case x of Some (Ret a s) \<Rightarrow> Some s | Some (Panic msg s) \<Rightarrow> Some s | _ \<Rightarrow> None)"

definition final_fproc :: "'a outcome option \<Rightarrow> fproc_entry list" where
  "final_fproc x = (case final_state x of Some s \<Rightarrow> fproc s | None \<Rightarrow> [])"

definition final_i_zone0 :: "'a outcome option \<Rightarrow> nat \<Rightarrow> int option" where
  "final_i_zone0 x ip = (case final_state x of Some s \<Rightarrow> Some (i_zone0 s ip) | None \<Rightarrow> None)"



subsection \<open>Frames\<close>

text \<open>
  Two relations between the state before and the state after a routine, for the lemmas
  below.  \<open>io_ext s s'\<close>: the routine has added events to the trace, none of them a grant
  or a revocation, and has at most unbound entries of the driver map; nothing else has
  changed.  \<open>mem_ext s s' evs\<close>: the routine has added the events \<open>evs\<close> and has at most
  written I/O vectors.
\<close>

definition io_ext :: "fs_state \<Rightarrow> fs_state \<Rightarrow> bool" where
  "io_ext s s' \<longleftrightarrow> (\<exists>evs d. s' = s\<lparr>dmap := d, trace := trace s @ evs\<rparr> \<and> length d = length (dmap s)
           \<and> (\<forall>i<length d. d ! i = dmap s ! i \<or> dmap_driver (d ! i) = NONE)
           \<and> minted evs = [] \<and> revoked evs = [])"

definition io_ext_out :: "fs_state \<Rightarrow> 'a outcome \<Rightarrow> bool" where
  "io_ext_out s y = (case y of Ret x s' \<Rightarrow> io_ext s s' | Panic msg s' \<Rightarrow> io_ext s s' | Fault \<Rightarrow> True)"

definition mem_ext :: "fs_state \<Rightarrow> fs_state \<Rightarrow> event list \<Rightarrow> bool" where
  "mem_ext s s' evs \<longleftrightarrow> (\<exists>mem. s' = s\<lparr>iov_mem := mem, trace := trace s @ evs\<rparr>)"

text \<open>
  Two situations after the call of the I/O handler in \<open>dev_io\<close> (line 477):
  the binding is still bound, the reply status is \<open>SUSPEND\<close> and the caller did not pass
  \<open>O_NONBLOCK\<close>; and the binding has lost its driver.
\<close>

definition dev_io_suspends ::
  "env \<Rightarrow> int \<Rightarrow> int \<Rightarrow> int \<Rightarrow> int \<Rightarrow> int \<Rightarrow> int \<Rightarrow> int \<Rightarrow> fs_state \<Rightarrow> bool" where
  "dev_io_suspends e op dev proc_e buf pos bytes flags s =
     (case dev_io_request e op dev proc_e buf pos bytes s of
        Some (Ret (Inr l) s1) \<Rightarrow>
          (case dmap_at s1 (major_of dev) of
             Some dp \<Rightarrow> dmap_driver dp \<noteq> NONE \<and> REP_STATUS (l_dev_mess l) = SUSPEND \<and>
                        flags AND O_NONBLOCK = 0
           | None \<Rightarrow> False)
      | _ \<Rightarrow> False)"

definition dev_io_reply_suspend ::
  "env \<Rightarrow> int \<Rightarrow> int \<Rightarrow> int \<Rightarrow> int \<Rightarrow> int \<Rightarrow> int \<Rightarrow> fs_state \<Rightarrow> bool" where
  "dev_io_reply_suspend e op dev proc_e buf pos bytes s =
     (case dev_io_request e op dev proc_e buf pos bytes s of
        Some (Ret (Inr l) s1) \<Rightarrow>
          (case dmap_at s1 (major_of dev) of
             Some dp \<Rightarrow> dmap_driver dp \<noteq> NONE \<and> REP_STATUS (l_dev_mess l) = SUSPEND
           | None \<Rightarrow> False)
      | _ \<Rightarrow> False)"

definition dev_io_driver_gone ::
  "env \<Rightarrow> int \<Rightarrow> int \<Rightarrow> int \<Rightarrow> int \<Rightarrow> int \<Rightarrow> int \<Rightarrow> fs_state \<Rightarrow> bool" where
  "dev_io_driver_gone e op dev proc_e buf pos bytes s =
     (case dev_io_request e op dev proc_e buf pos bytes s of
        Some (Ret (Inr l) s1) \<Rightarrow>
          (case dmap_at s1 (major_of dev) of
             Some dp \<Rightarrow> dmap_driver dp = NONE
           | None \<Rightarrow> False)
      | _ \<Rightarrow> False)"

subsection \<open>Concrete bindings, processes and drivers\<close>

text \<open>
  A small server state for the scenarios: majors 0 to 2 have no driver, major 3 is a
  disk (driver 7), major 4 a terminal (driver 8), major 5 is \<^verbatim>\<open>/dev/tty\<close>, major 6 a
  clone device (driver 9).  The only process has endpoint 17, is a session leader
  without a controlling terminal, and has one open file descriptor.  The server's
  memory holds two vectors of 64 entries, one at address 4096 and the array
  \<^verbatim>\<open>new_iovec\<close> at address 20480; nothing else is mapped.
\<close>

definition absent :: dmap_entry where
  "absent = \<lparr>dmap_opcl = No_dev, dmap_io = No_dev_io, dmap_driver = NONE\<rparr>"

definition dmap0 :: "dmap_entry list" where
  "dmap0 = [absent, absent, absent,
            \<lparr>dmap_opcl = Gen_opcl, dmap_io = Gen_io, dmap_driver = 7\<rparr>,
            \<lparr>dmap_opcl = Tty_opcl, dmap_io = Gen_io, dmap_driver = 8\<rparr>,
            \<lparr>dmap_opcl = Ctty_opcl, dmap_io = Ctty_io, dmap_driver = 8\<rparr>,
            \<lparr>dmap_opcl = Clone_opcl, dmap_io = Gen_io, dmap_driver = 9\<rparr>]"

definition proc0 :: fproc_entry where
  "proc0 = \<lparr>fp_pid = 35, fp_endpoint = 17, fp_suspended = 0, fp_task = 0,
            fp_grant = GRANT_INVALID, fp_ioproc = 0, fp_sesldr = 1, fp_tty = 0,
            fp_filp = [Some 0]\<rparr>"

definition st0 :: fs_state where
  "st0 = \<lparr>dmap = dmap0, fproc = [proc0], fp = Some 0, filp = [\<lparr>filp_ino = Some 0\<rparr>],
          i_zone0 = (\<lambda>ip. 0),
          iov_mem = (\<lambda>a j. if (a = 4096 \<or> a = 20480) \<and> j < 64 then Some (0, 0) else None),
          dev_io_gids = (\<lambda>j. 0),
          dev_bio_gids = (\<lambda>j. 0), m_in_fd = 0, m_in_REQUEST = 0, call_nr = READ,
          err_code = 0, root_dev = 0, trace = []\<rparr>"

definition mess0 :: message where
  "mess0 = \<lparr>m_source = 0, m_type = 0, m2_i1 = 0, m2_i2 = 0, m2_i3 = 0, m2_l1 = 0, m2_l2 = 0,
            m2_p1 = 0\<rparr>"

text \<open>
  \<open>reply_with status\<close> is a driver's reply to the request \<open>m\<close>: it names the endpoint of
  the request and carries \<open>status\<close>.  \<open>env_of k\<close> is a system around the server whose
  kernel answers \<^verbatim>\<open>sendrec\<close> as \<open>k\<close> says, whose grant library hands out the grant 3, in
  which every endpoint is valid, and whose inode allocator hands out inode 5.
\<close>

definition reply_with :: "int \<Rightarrow> message \<Rightarrow> int \<times> message" where
  "reply_with status m = (OK, m\<lparr>m2_i1 := IO_ENDPT m, m2_i2 := status\<rparr>)"

definition env_of :: "(event list \<Rightarrow> int \<Rightarrow> message \<Rightarrow> int \<times> message) \<Rightarrow> env" where
  "env_of k =
     \<lparr>env_sendrec = k,
      env_grant_magic = (\<lambda>tr driver owner addr bytes access. 3),
      env_grant_direct = (\<lambda>tr driver addr bytes access. 3),
      env_isokendpt = (\<lambda>ep. Some 0),
      env_alloc_inode = (\<lambda>tr dev bits. (Some 5, 0)),
      env_ioctl_ior = (\<lambda>rq. False),
      env_ioctl_iow = (\<lambda>rq. False),
      env_ioctl_big = (\<lambda>rq. False),
      env_ioctl_size = (\<lambda>rq. 0),
      env_ioctl_size_big = (\<lambda>rq. 0),
      env_uninit = mess0,
      env_new_iovec = 20480,
      env_revive = (\<lambda>ep status s. s),
      env_select_notified = (\<lambda>d minor ops s. s),
      env_receive = (\<lambda>tr src. (OK, \<lparr>rs_m_source = 2, rs_m_type = 0, ctl_req = 0, dev_nr = 0,
                                      driver_nr = 0, dev_style = 0, m_force = 0\<rparr>)),
      env_send = (\<lambda>tr dst r. OK),
      env_fs_devctl = (\<lambda>req dev ep style force s. (OK, s))\<rparr>"

text \<open>
  \<open>st_ctty d\<close> is the state \<open>st0\<close> in which the process has the controlling terminal \<open>d\<close>;
  \<open>st_member\<close> is \<open>st0\<close> with a process that is not a session leader.
\<close>

definition st_ctty :: "int \<Rightarrow> fs_state" where
  "st_ctty d = st0\<lparr>fproc := [proc0\<lparr>fp_tty := d\<rparr>]\<rparr>"

definition st_member :: fs_state where
  "st_member = st0\<lparr>fproc := [proc0\<lparr>fp_sesldr := 0\<rparr>]\<rparr>"

text \<open>
  Three drivers: one that answers every request with the status \<open>st\<close>; one that answers
  \<open>SUSPEND\<close> to every request but \<open>CANCEL\<close>, which it answers with \<open>st\<close>; and one that is
  dead, so that the kernel fails every \<^verbatim>\<open>sendrec\<close> with \<open>EDSTDIED\<close>.
\<close>

definition driver_replies :: "int \<Rightarrow> env" where
  "driver_replies st = env_of (\<lambda>tr task m. reply_with st m)"

definition driver_suspends :: "int \<Rightarrow> env" where
  "driver_suspends st =
     env_of (\<lambda>tr task m. reply_with (if m_type m = CANCEL then st else SUSPEND) m)"

definition driver_dead :: env where
  "driver_dead = env_of (\<lambda>tr task m. (EDSTDIED, m))"

section \<open>Lemmas\<close>

subsection \<open>Constants, traces, frames\<close>

lemmas scenario_defs = st0_def dmap0_def proc0_def absent_def env_of_def mess0_def reply_with_def
  driver_replies_def driver_suspends_def driver_dead_def
  st_ctty_def st_member_def
lemmas dev_defs = major_of_def minor_of_def MAJOR_def MINOR_def BYTE_def to_vir_bytes_def
lemmas grant_defs = GRANT_VALID_def GRANT_INVALID_def CPF_READ_def CPF_WRITE_def


lemmas k_defs = OK_def EINTR_def EIO_def ENXIO_def EAGAIN_def ENODEV_def ELOCKED_def EDSTDIED_def
  ESRCDIED_def EDEADSRCDST_def SUSPEND_def NONE_def FS_PROC_NR_def

lemmas op_defs = CANCEL_def DEV_READ_def DEV_WRITE_def DEV_IOCTL_def DEV_OPEN_def DEV_CLOSE_def
  DEV_SCATTER_def DEV_GATHER_def DEV_STATUS_def DEV_READ_S_def DEV_WRITE_S_def DEV_SCATTER_S_def
  DEV_GATHER_S_def DEV_IOCTL_S_def

lemma minted_simps [simp]:
  "minted [] = []" "minted (ev # evs) = minted_by ev @ minted evs"
  "minted (xs @ ys) = minted xs @ minted ys"
  by (simp_all add: minted_def)

lemma revoked_simps [simp]:
  "revoked [] = []" "revoked (ev # evs) = revoked_by ev @ revoked evs"
  "revoked (xs @ ys) = revoked xs @ revoked ys"
  by (simp_all add: revoked_def)

lemma sent_simps [simp]:
  "sent [] = []" "sent (ev # evs) = sent_by ev @ sent evs"
  "sent (xs @ ys) = sent xs @ sent ys"
  by (simp_all add: sent_def)

lemma new_events_append [simp]: "trace s' = trace s @ evs \<Longrightarrow> new_events s s' = evs"
  by (simp add: new_events_def)

lemma new_events_self [simp]: "new_events s s = []"
  by (simp add: new_events_def)

lemma call_io_Gen_io: "call_io e Gen_io task m s = Some (gen_io e task m s)"
  by (subst call_io.simps) simp

lemma call_io_No_dev_io: "call_io e No_dev_io task m s = Some (no_dev_io task m s)"
  by (subst call_io.simps) simp


lemma io_extI:
  "s' = s\<lparr>dmap := d, trace := trace s @ evs\<rparr> \<Longrightarrow> length d = length (dmap s) \<Longrightarrow>
   (\<forall>i<length d. d ! i = dmap s ! i \<or> dmap_driver (d ! i) = NONE) \<Longrightarrow>
   minted evs = [] \<Longrightarrow> revoked evs = [] \<Longrightarrow> io_ext s s'"
  unfolding io_ext_def by blast

lemma io_ext_dmap_at:
  assumes "io_ext s s'" "dmap_at s' k = Some dp" "dmap_driver dp \<noteq> NONE"
  shows "dmap_at s k = Some dp"
  using assms by (auto simp: io_ext_def dmap_at_def split: if_splits)

lemma io_ext_refl: "io_ext s s"
  by (rule io_extI[where d="dmap s" and evs="[]"]) simp_all

lemma io_ext_fields:
  assumes "io_ext s s'"
  shows "fproc s' = fproc s" "fp s' = fp s" "filp s' = filp s" "i_zone0 s' = i_zone0 s"
    "iov_mem s' = iov_mem s" "dev_io_gids s' = dev_io_gids s" "dev_bio_gids s' = dev_bio_gids s"
    "m_in_fd s' = m_in_fd s" "m_in_REQUEST s' = m_in_REQUEST s" "call_nr s' = call_nr s"
    "err_code s' = err_code s" "root_dev s' = root_dev s" "length (dmap s') = length (dmap s)"
    "cur_fp s' = cur_fp s"
  using assms by (auto simp: io_ext_def cur_fp_def split: option.splits)

lemma io_ext_trace:
  assumes "io_ext s s'"
  obtains evs where "trace s' = trace s @ evs" "minted evs = []" "revoked evs = []"
  using assms by (auto simp: io_ext_def)

lemma gen_io_state:
  assumes "gen_io e task m s = Ret x s'"
  shows "s' = s\<lparr>trace := trace s @ [Ev_sendrec task m]\<rparr> \<or>
         s' = s\<lparr>dmap := map (\<lambda>dp. if dmap_driver dp = task
                             then \<lparr>dmap_opcl = No_dev, dmap_io = No_dev_io, dmap_driver = NONE\<rparr>
                             else dp) (dmap s), trace := trace s @ [Ev_sendrec task m, Ev_unmap task]\<rparr>"
  using assms
  by (auto simp: gen_io_def sendrec_def emit_def dmap_unmap_by_endpt_def split: prod.splits if_splits)

lemma gen_io_frame_panic:
  assumes "gen_io e task m s = Panic msg s'"
  shows "s' = s\<lparr>trace := trace s @ [Ev_sendrec task m]\<rparr>"
  using assms by (auto simp: gen_io_def sendrec_def emit_def split: prod.splits if_splits)

lemma gen_io_ext:
  assumes "gen_io e task m s = Ret x s'"
  shows "io_ext s s'"
  using gen_io_state[OF assms]
proof
  assume "s' = s\<lparr>trace := trace s @ [Ev_sendrec task m]\<rparr>"
  then show ?thesis by (intro io_extI[where d="dmap s" and evs="[Ev_sendrec task m]"]) simp_all
next
  assume "s' = s\<lparr>dmap := map (\<lambda>dp. if dmap_driver dp = task
                             then \<lparr>dmap_opcl = No_dev, dmap_io = No_dev_io, dmap_driver = NONE\<rparr>
                             else dp) (dmap s), trace := trace s @ [Ev_sendrec task m, Ev_unmap task]\<rparr>"
  then show ?thesis by (intro io_extI[where evs="[Ev_sendrec task m, Ev_unmap task]"
      and d="map (\<lambda>dp. if dmap_driver dp = task
                             then \<lparr>dmap_opcl = No_dev, dmap_io = No_dev_io, dmap_driver = NONE\<rparr>
                             else dp) (dmap s)"]) simp_all
qed

lemma gen_io_ext_panic:
  assumes "gen_io e task m s = Panic msg s'"
  shows "io_ext s s'"
  using gen_io_frame_panic[OF assms]
  by (intro io_extI[where d="dmap s" and evs="[Ev_sendrec task m]"]) simp_all

lemma io_ext_out_simps [simp]:
  "io_ext_out s (Ret x s') = io_ext s s'"
  "io_ext_out s (Panic msg s') = io_ext s s'"
  "io_ext_out s Fault = True"
  by (simp_all add: io_ext_out_def)

lemma gen_io_ext_out: "io_ext_out s (gen_io e task m s)"
  by (cases "gen_io e task m s") (simp_all add: gen_io_ext gen_io_ext_panic)

lemma call_io_ext_out:
  assumes "call_io e h task m s = Some y"
  shows "io_ext_out s y"
proof (rule call_io.raw_induct[where P="\<lambda>e h task m s y. io_ext_out s y", OF _ assms], goal_cases)
  case (1 f e h task m s y)
  show ?case
  proof (cases h)
    case Gen_io
    with 1(2) show ?thesis by (auto simp: gen_io_ext_out)
  next
    case No_dev_io
    with 1(2) show ?thesis by (auto simp: no_dev_io_def io_ext_refl)
  next
    case Ctty_io
    from 1(2) Ctty_io consider "y = Fault" | x where "y = Ret x s"
      | hh tt mm res where "f e hh tt mm s = Some res"
          "y = (case res of Ret x s1 \<Rightarrow> Ret (OK, snd x) s1 | Panic msg s1 \<Rightarrow> Panic msg s1
                | Fault \<Rightarrow> Fault)"
      by (fastforce simp: Option.bind_eq_Some_conv split: option.splits if_splits outcome.splits prod.splits)
    then show ?thesis
    proof cases
      case 1
      then show ?thesis by simp
    next
      case 2
      then show ?thesis by (simp add: io_ext_refl)
    next
      case 3
      from 1(1)[OF 3(1)] have "io_ext_out s res" .
      with 3(2) show ?thesis by (cases res) auto
    qed
  qed
qed

lemma call_io_ext: "call_io e h task m s = Some (Ret x s') \<Longrightarrow> io_ext s s'"
  using call_io_ext_out[of e h task m s "Ret x s'"] by simp

lemma call_io_ext_panic: "call_io e h task m s = Some (Panic msg s') \<Longrightarrow> io_ext s s'"
  using call_io_ext_out[of e h task m s "Panic msg s'"] by simp


lemma mem_extI: "s' = s\<lparr>iov_mem := mem, trace := trace s @ evs\<rparr> \<Longrightarrow> mem_ext s s' evs"
  unfolding mem_ext_def by blast

lemma mem_ext_refl: "mem_ext s s []"
  by (rule mem_extI[where mem="iov_mem s"]) simp

lemma mem_ext_trans: "mem_ext s s1 evs1 \<Longrightarrow> mem_ext s1 s2 evs2 \<Longrightarrow> mem_ext s s2 (evs1 @ evs2)"
  unfolding mem_ext_def by auto

lemma mem_ext_fields:
  assumes "mem_ext s s' evs"
  shows "fproc s' = fproc s" "fp s' = fp s" "filp s' = filp s" "i_zone0 s' = i_zone0 s"
    "dmap s' = dmap s" "dev_io_gids s' = dev_io_gids s" "dev_bio_gids s' = dev_bio_gids s"
    "m_in_fd s' = m_in_fd s" "m_in_REQUEST s' = m_in_REQUEST s" "call_nr s' = call_nr s"
    "err_code s' = err_code s" "root_dev s' = root_dev s" "trace s' = trace s @ evs"
    "cur_fp s' = cur_fp s"
  using assms by (auto simp: mem_ext_def cur_fp_def split: option.splits)

lemma grant_vector_frame:
  "case grant_vector e driver op v nv bytes j gids vg s of
     Ret x s' \<Rightarrow> (\<exists>evs. mem_ext s s' evs \<and> minted evs = map (fst x) [j..<j + (snd x - vg)]
                     \<and> vg \<le> snd x \<and> revoked evs = [] \<and> sent evs = [] \<and> (\<forall>i<j. fst x i = gids i))
   | Panic msg s' \<Rightarrow> (\<exists>evs. mem_ext s s' evs \<and> sent evs = [] \<and> revoked evs = [])
   | Fault \<Rightarrow> True"
proof (induction e driver op v nv bytes j gids vg s rule: grant_vector.induct)
  case (1 e driver op v nv bytes j gids vg s)
  show ?case
  proof (cases "int j < bytes")
    case False
    then show ?thesis
      by (subst grant_vector.simps) (auto intro!: exI[of _ "[]"] simp: mem_ext_refl)
  next
    case lt: True
    show ?thesis
    proof (cases "int j \<ge> NR_IOREQS")
      case True
      with lt show ?thesis
        by (subst grant_vector.simps) (auto intro!: exI[of _ "[]"] simp: mem_ext_refl)
    next
      case nb: False
      show ?thesis
      proof (cases "iov_mem s v j")
        case None
        with lt nb show ?thesis by (subst grant_vector.simps) simp
      next
        case (Some av)
        obtain addr sz where av: "av = (addr, sz)" by (cases av)
        define acc where "acc = (if op = DEV_GATHER_S then CPF_WRITE else CPF_READ)"
        define g where "g = env_grant_direct e (trace s) driver addr sz acc"
        define ev where "ev = Ev_grant_direct driver addr sz acc g"
        define s1 where "s1 = emit ev s"
        have cg: "cpf_grant_direct e driver addr sz acc s = (g, s1)"
          by (simp add: cpf_grant_direct_def g_def s1_def ev_def Let_def)
        show ?thesis
        proof (cases "iov_mem s1 nv j")
          case None
          with lt nb Some av cg show ?thesis
            by (subst grant_vector.simps) (simp add: acc_def[symmetric])
        next
          case old: (Some av0)
          obtain addr0 sz0 where av0: "av0 = (addr0, sz0)" by (cases av0)
          define s2 where "s2 = s1\<lparr>iov_mem := (iov_mem s1)(nv := (iov_mem s1 nv)(j := Some (g, sz0)))\<rparr>"
          have m2: "mem_ext s s2 [ev]"
            by (rule mem_extI[where mem="iov_mem s2"]) (simp add: s2_def s1_def emit_def)
          show ?thesis
          proof (cases "GRANT_VALID g")
            case False
            have "grant_vector e driver op v nv bytes j gids vg s = Panic ''grant to iovec buf failed'' s2"
              using lt nb False cg Some av old av0
              by (subst grant_vector.simps) (simp add: acc_def[symmetric] s2_def)
            with m2 show ?thesis by (auto simp: ev_def)
          next
            case True
            show ?thesis
            proof (cases "((iov_mem s1)(nv := (iov_mem s1 nv)(j := Some (g, sz0)))) v j")
              case None
              with lt nb True cg Some av old av0 show ?thesis
                by (subst grant_vector.simps) (simp add: acc_def[symmetric])
            next
              case again: (Some av2)
              obtain addr2 sz2 where av2: "av2 = (addr2, sz2)" by (cases av2)
              define s3 where "s3 = s1\<lparr>iov_mem := (iov_mem s1)(nv := (iov_mem s1 nv)(j := Some (g, sz2)))\<rparr>"
              have m3: "mem_ext s s3 [ev]"
                by (rule mem_extI[where mem="iov_mem s3"]) (simp add: s3_def s1_def emit_def)
              have step: "grant_vector e driver op v nv bytes j gids vg s
                          = grant_vector e driver op v nv bytes (Suc j) (gids(j := g)) (Suc vg) s3"
                using lt nb True cg Some av old av0 again av2
                by (subst grant_vector.simps) (simp add: acc_def[symmetric] s3_def)
              have nn: "\<not> \<not> GRANT_VALID g" using True by simp
              note IH = "1.IH"[OF lt nb Some av[symmetric] cg[unfolded acc_def, symmetric] old
                               av0[symmetric] nn again av2[symmetric], folded s3_def]
              show ?thesis
              proof (cases "grant_vector e driver op v nv bytes (Suc j) (gids(j := g)) (Suc vg) s3")
                case (Ret x s')
                from IH have "\<exists>evs. mem_ext s3 s' evs \<and> minted evs = map (fst x) [Suc j..<Suc j + (snd x - Suc vg)]
                           \<and> Suc vg \<le> snd x \<and> revoked evs = [] \<and> sent evs = [] \<and> (\<forall>i<Suc j. fst x i = (gids(j := g)) i)"
                  by (simp only: Ret outcome.case)
                then obtain evs where evs: "mem_ext s3 s' evs" "minted evs = map (fst x) [Suc j..<Suc j + (snd x - Suc vg)]"
                  "Suc vg \<le> snd x" "revoked evs = []" "sent evs = []" "\<forall>i<Suc j. fst x i = (gids(j := g)) i"
                  by blast
                from evs(6) have gj: "fst x j = g" by simp
                from evs(6) have old: "\<forall>i<j. fst x i = gids i" by auto
                have e1: "Suc j + (snd x - Suc vg) = j + (snd x - vg)" using evs(3) by arith
                have "j < j + (snd x - vg)" using evs(3) by arith
                then have rng: "[j..<j + (snd x - vg)] = j # [Suc j..<Suc j + (snd x - Suc vg)]"
                  unfolding e1 by (rule upt_conv_Cons)
                have "mem_ext s s' ([ev] @ evs)" using mem_ext_trans[OF m3 evs(1)] .
                moreover have "minted ([ev] @ evs) = map (fst x) [j..<j + (snd x - vg)]"
                  using evs(2) gj rng by (simp add: ev_def)
                ultimately show ?thesis using Ret step evs old
                  by (auto intro!: exI[of _ "[ev] @ evs"] simp: ev_def)
              next
                case (Panic msg s')
                from IH have "\<exists>evs. mem_ext s3 s' evs \<and> sent evs = [] \<and> revoked evs = []"
                  by (simp only: Panic outcome.case)
                then obtain evs where evs: "mem_ext s3 s' evs" "sent evs = []" "revoked evs = []" by blast
                have "mem_ext s s' ([ev] @ evs)" using mem_ext_trans[OF m3 evs(1)] .
                then show ?thesis using Panic step evs
                  by (auto intro!: exI[of _ "[ev] @ evs"] simp: ev_def)
              next
                case Fault
                with step show ?thesis by simp
              qed
            qed
          qed
        qed
      qed
    qed
  qed
qed

subsection \<open>The conversion and the cleanup\<close>

lemma cleanup_state:
  "safe_io_cleanup gid gids n s = s\<lparr>trace := trace s @ Ev_revoke gid # map (\<lambda>j. Ev_revoke (gids j)) [0..<n]\<rparr>"
proof (induction n)
  case 0
  show ?case by (simp add: safe_io_cleanup_def cpf_revoke_def emit_def)
next
  case (Suc n)
  have "safe_io_cleanup gid gids (Suc n) s = cpf_revoke (gids n) (safe_io_cleanup gid gids n s)"
    by (simp add: safe_io_cleanup_def)
  also have "\<dots> = s\<lparr>trace := trace s @ Ev_revoke gid # map (\<lambda>j. Ev_revoke (gids j)) [0..<Suc n]\<rparr>"
    by (simp add: Suc cpf_revoke_def emit_def)
  finally show ?case .
qed

lemma revoked_map_revoke [simp]: "revoked (map (\<lambda>j. Ev_revoke (gids j)) js) = map gids js"
  by (induction js) simp_all

lemma minted_map_revoke [simp]: "minted (map (\<lambda>j. Ev_revoke (gids j)) js) = []"
  by (induction js) simp_all

lemma sent_map_revoke [simp]: "sent (map (\<lambda>j. Ev_revoke (gids j)) js) = []"
  by (induction js) simp_all

lemma conversion_result_cases:
  "conversion_result c s = Ret (if GRANT_VALID (c_gid c) then c\<lparr>c_io_ept := FS_PROC_NR, c_ret := 1\<rparr> else c\<lparr>c_ret := 0\<rparr>) s"
  by (simp add: conversion_result_def)

lemma conv_frame:
  assumes "safe_io_conversion e driver op gids io_ept buf bytes pos s = Ret c s1"
  shows "\<exists>evs. mem_ext s s1 evs \<and> revoked evs = [] \<and> sent evs = [] \<and>
           minted evs = (if c_ret c \<noteq> 0 then c_gid c # map (c_gids c) [0..<c_vec_grants c] else [])"
    and "c_ret c = 0 \<Longrightarrow> c_vec_grants c = 0 \<and> c_gid c = GRANT_INVALID \<and> c_io_ept c = io_ept \<and> c_buf c = buf"
    and "c_ret c \<noteq> 0 \<Longrightarrow> c_io_ept c = FS_PROC_NR \<and> GRANT_VALID (c_gid c)"
    and "op = DEV_GATHER \<or> op = DEV_SCATTER \<Longrightarrow> c_buf c = env_new_iovec e"
    and "\<not> (op = DEV_GATHER \<or> op = DEV_SCATTER) \<Longrightarrow> c_buf c = buf \<and> c_vec_grants c = 0 \<and> c_gids c = gids"
proof -
  consider (rw) "op = DEV_READ \<or> op = DEV_WRITE"
    | (vec) "\<not> (op = DEV_READ \<or> op = DEV_WRITE)" "op = DEV_GATHER \<or> op = DEV_SCATTER"
    | (ioctl) "\<not> (op = DEV_READ \<or> op = DEV_WRITE)" "\<not> (op = DEV_GATHER \<or> op = DEV_SCATTER)" "op = DEV_IOCTL"
    | (other) "\<not> (op = DEV_READ \<or> op = DEV_WRITE)" "\<not> (op = DEV_GATHER \<or> op = DEV_SCATTER)" "op \<noteq> DEV_IOCTL"
    by blast
  then have "(\<exists>evs. mem_ext s s1 evs \<and> revoked evs = [] \<and> sent evs = [] \<and>
           minted evs = (if c_ret c \<noteq> 0 then c_gid c # map (c_gids c) [0..<c_vec_grants c] else []))
     \<and> (c_ret c = 0 \<longrightarrow> c_vec_grants c = 0 \<and> c_gid c = GRANT_INVALID \<and> c_io_ept c = io_ept \<and> c_buf c = buf)
     \<and> (c_ret c \<noteq> 0 \<longrightarrow> c_io_ept c = FS_PROC_NR \<and> GRANT_VALID (c_gid c))
     \<and> (op = DEV_GATHER \<or> op = DEV_SCATTER \<longrightarrow> c_buf c = env_new_iovec e)
     \<and> (\<not> (op = DEV_GATHER \<or> op = DEV_SCATTER) \<longrightarrow> c_buf c = buf \<and> c_vec_grants c = 0 \<and> c_gids c = gids)"
  proof cases
    case rw
    define acc where "acc = (if (if op = DEV_READ then DEV_READ_S else DEV_WRITE_S) = DEV_READ_S then CPF_WRITE else CPF_READ)"
    define g where "g = env_grant_magic e (trace s) driver io_ept buf bytes acc"
    have m: "mem_ext s (emit (Ev_grant_magic driver io_ept buf bytes acc g) s) [Ev_grant_magic driver io_ept buf bytes acc g]"
      by (rule mem_extI[where mem="iov_mem s"]) (simp add: emit_def)
    from rw assms have "g \<ge> 0" "s1 = emit (Ev_grant_magic driver io_ept buf bytes acc g) s"
       "c = \<lparr>c_ret = 1, c_gid = g, c_op = (if op = DEV_READ then DEV_READ_S else DEV_WRITE_S), c_gids = gids,
             c_io_ept = FS_PROC_NR, c_buf = buf, c_vec_grants = 0, c_pos = pos\<rparr>"
      by (auto simp: safe_io_conversion_def cpf_grant_magic_def Let_def conversion_result_def acc_def g_def
           GRANT_VALID_def GRANT_INVALID_def split: if_splits)
    with m rw show ?thesis
      by (auto intro!: exI[of _ "[Ev_grant_magic driver io_ept buf bytes acc g]"]
           simp: GRANT_VALID_def GRANT_INVALID_def op_defs)
  next
    case vec
    define op1 where "op1 = (if op = DEV_GATHER then DEV_GATHER_S else DEV_SCATTER_S)"
    define g where "g = env_grant_direct e (trace s) driver (env_new_iovec e)
                (to_vir_bytes (bytes * sizeof_iovec_t)) (CPF_READ OR CPF_WRITE)"
    define ev where "ev = Ev_grant_direct driver (env_new_iovec e)
                (to_vir_bytes (bytes * sizeof_iovec_t)) (CPF_READ OR CPF_WRITE) g"
    have m: "mem_ext s (emit ev s) [ev]"
      by (rule mem_extI[where mem="iov_mem s"]) (simp add: emit_def)
    from vec assms obtain gids1 vg where gv:
       "g \<ge> 0" "grant_vector e driver op1 buf (env_new_iovec e) bytes 0 gids 0 (emit ev s) = Ret (gids1, vg) s1"
       "c = \<lparr>c_ret = 1, c_gid = g, c_op = op1, c_gids = gids1,
             c_io_ept = FS_PROC_NR, c_buf = env_new_iovec e, c_vec_grants = vg, c_pos = pos\<rparr>"
      by (auto simp: safe_io_conversion_def cpf_grant_direct_def Let_def conversion_result_def op1_def g_def ev_def
           GRANT_VALID_def GRANT_INVALID_def split: if_splits outcome.splits prod.splits)
    from grant_vector_frame[where e=e and driver=driver and op=op1 and v=buf and nv="env_new_iovec e" and bytes=bytes and j=0 and gids=gids and vg=0 and s="emit ev s"] gv(2)
    obtain evs where evs: "mem_ext (emit ev s) s1 evs" "minted evs = map gids1 [0..<vg]" "revoked evs = []" "sent evs = []"
      by auto
    have "mem_ext s s1 ([ev] @ evs)" using mem_ext_trans[OF m evs(1)] .
    with evs gv vec show ?thesis
      by (auto intro!: exI[of _ "[ev] @ evs"] simp: GRANT_VALID_def GRANT_INVALID_def ev_def)
  next
    case ioctl
    define acc where "acc = (if env_ioctl_ior e (m_in_REQUEST s) then CPF_WRITE else 0) OR
                      (if env_ioctl_iow e (m_in_REQUEST s) then CPF_READ else 0)"
    define sz where "sz = (if env_ioctl_big e (m_in_REQUEST s) then env_ioctl_size_big e (m_in_REQUEST s)
                     else env_ioctl_size e (m_in_REQUEST s))"
    define g where "g = env_grant_magic e (trace s) driver io_ept buf sz acc"
    have m: "mem_ext s (emit (Ev_grant_magic driver io_ept buf sz acc g) s) [Ev_grant_magic driver io_ept buf sz acc g]"
      by (rule mem_extI[where mem="iov_mem s"]) (simp add: emit_def)
    from ioctl assms have "g \<ge> 0" "s1 = emit (Ev_grant_magic driver io_ept buf sz acc g) s"
       "c = \<lparr>c_ret = 1, c_gid = g, c_op = DEV_IOCTL_S, c_gids = gids,
             c_io_ept = FS_PROC_NR, c_buf = buf, c_vec_grants = 0, c_pos = io_ept\<rparr>"
      by (auto simp: safe_io_conversion_def cpf_grant_magic_def Let_def conversion_result_def acc_def g_def sz_def
           GRANT_VALID_def GRANT_INVALID_def split: if_splits)
    with m ioctl show ?thesis
      by (auto intro!: exI[of _ "[Ev_grant_magic driver io_ept buf sz acc g]"]
           simp: GRANT_VALID_def GRANT_INVALID_def)
  next
    case other
    with assms have "s1 = s" "c = \<lparr>c_ret = 0, c_gid = GRANT_INVALID, c_op = op, c_gids = gids, c_io_ept = io_ept,
               c_buf = buf, c_vec_grants = 0, c_pos = pos\<rparr>"
      by (auto simp: safe_io_conversion_def Let_def conversion_result_def GRANT_VALID_def)
    with other show ?thesis
      by (auto intro!: exI[of _ "[]"] simp: mem_ext_refl)
  qed
  then show "\<exists>evs. mem_ext s s1 evs \<and> revoked evs = [] \<and> sent evs = [] \<and>
           minted evs = (if c_ret c \<noteq> 0 then c_gid c # map (c_gids c) [0..<c_vec_grants c] else [])"
    and "c_ret c = 0 \<Longrightarrow> c_vec_grants c = 0 \<and> c_gid c = GRANT_INVALID \<and> c_io_ept c = io_ept \<and> c_buf c = buf"
    and "c_ret c \<noteq> 0 \<Longrightarrow> c_io_ept c = FS_PROC_NR \<and> GRANT_VALID (c_gid c)"
    and "op = DEV_GATHER \<or> op = DEV_SCATTER \<Longrightarrow> c_buf c = env_new_iovec e"
    and "\<not> (op = DEV_GATHER \<or> op = DEV_SCATTER) \<Longrightarrow> c_buf c = buf \<and> c_vec_grants c = 0 \<and> c_gids c = gids"
    by blast+
qed







subsection \<open>The request phase of dev_io\<close>

lemma and_then_Some_Ret:
  "and_then x f = Some y \<longleftrightarrow>
     (x = Some Fault \<and> y = Fault) \<or> (\<exists>msg s. x = Some (Panic msg s) \<and> y = Panic msg s)
     \<or> (\<exists>a s. x = Some (Ret a s) \<and> f a s = Some y)"
  by (auto simp: and_then_def split: option.splits outcome.splits)

lemma and_then_simps [simp]:
  "and_then None f = None"
  "and_then (Some Fault) f = Some Fault"
  "and_then (Some (Panic msg s)) f = Some (Panic msg s)"
  "and_then (Some (Ret a s)) f = f a s"
  by (simp_all add: and_then_def)

lemma io_ext_mem_ext_trace:
  assumes "mem_ext s s1 evs1" "io_ext s1 s2"
  obtains evs2 where "trace s2 = trace s @ evs1 @ evs2" "minted evs2 = []" "revoked evs2 = []"
  using assms by (auto simp: mem_ext_def io_ext_def)


lemma dev_io_request_Inl:
  assumes "dev_io_request e op dev proc_e buf pos bytes s = Some (Ret (Inl r) s1)"
  shows "s1 = s \<and> r = ENXIO"
  using assms
  by (auto simp: dev_io_request_def and_then_Some_Ret split: option.splits if_splits outcome.splits prod.splits)

lemma dev_io_request_Inr:
  assumes "dev_io_request e op dev proc_e buf pos bytes s = Some (Ret (Inr l) s1)"
  shows "\<exists>evs. trace s1 = trace s @ evs \<and> revoked evs = [] \<and>
           minted evs = (if l_safe l \<noteq> 0 then l_gid l # map (dev_io_gids s1) [0..<l_vec_grants l] else [])"
    and "l_safe l = 0 \<Longrightarrow> l_vec_grants l = 0 \<and> l_gid l = GRANT_INVALID \<and> l_ioproc l = proc_e"
    and "l_safe l \<noteq> 0 \<Longrightarrow> l_ioproc l = FS_PROC_NR \<and> GRANT_VALID (l_gid l)"
    and "fp s1 = fp s" "fproc s1 = fproc s" "call_nr s1 = call_nr s"
proof -
  from assms obtain dp c s0 r m1 where
    dp: "dmap_at s (major_of dev) = Some dp"
    and conv: "safe_io_conversion e (dmap_driver dp) op (dev_io_gids s) proc_e buf (to_vir_bytes bytes) pos s = Ret c s0"
    and call: "call_io e (dmap_io dp) (dmap_driver dp)
                        ((env_uninit e)
                           \<lparr>m2_i2 := c_io_ept c,
                            m2_p1 := (if c_ret c \<noteq> 0 then c_gid c else buf),
                            m_type := c_op c,
                            m2_i1 := minor_of dev,
                            m2_l1 := c_pos c,
                            m2_i3 := bytes,
                            m2_l2 := 0\<rparr>)
                        (s0\<lparr>dev_io_gids := c_gids c\<rparr>) = Some (Ret (r, m1) s1)"
    and l: "l = \<lparr>l_gid = c_gid c, l_vec_grants = c_vec_grants c,
                                        l_safe = c_ret c, l_ioproc = c_io_ept c,
                                        l_dev_mess = m1\<rparr>"
    by (auto simp: dev_io_request_def and_then_Some_Ret split: option.splits if_splits outcome.splits prod.splits)
  from conv_frame(1)[OF conv] obtain evs1 where evs1: "mem_ext s s0 evs1" "revoked evs1 = []"
     "minted evs1 = (if c_ret c \<noteq> 0 then c_gid c # map (c_gids c) [0..<c_vec_grants c] else [])"
    by blast
  from call_io_ext[OF call] obtain evs2 where evs2:
     "trace s1 = trace (s0\<lparr>dev_io_gids := c_gids c\<rparr>) @ evs2" "minted evs2 = []" "revoked evs2 = []"
    by (rule io_ext_trace)
  have g: "dev_io_gids s1 = c_gids c" using io_ext_fields(6)[OF call_io_ext[OF call]] by simp
  have tr: "trace s1 = trace s @ evs1 @ evs2"
    using evs2(1) mem_ext_fields(13)[OF evs1(1)] by simp
  show "\<exists>evs. trace s1 = trace s @ evs \<and> revoked evs = [] \<and>
           minted evs = (if l_safe l \<noteq> 0 then l_gid l # map (dev_io_gids s1) [0..<l_vec_grants l] else [])"
    using tr evs1 evs2 g l by (intro exI[of _ "evs1 @ evs2"]) simp
  show "l_safe l = 0 \<Longrightarrow> l_vec_grants l = 0 \<and> l_gid l = GRANT_INVALID \<and> l_ioproc l = proc_e"
    using conv_frame(2)[OF conv] l by simp
  show "l_safe l \<noteq> 0 \<Longrightarrow> l_ioproc l = FS_PROC_NR \<and> GRANT_VALID (l_gid l)"
    using conv_frame(3)[OF conv] l by simp
  show "fp s1 = fp s" "fproc s1 = fproc s" "call_nr s1 = call_nr s"
    using io_ext_fields[OF call_io_ext[OF call]] mem_ext_fields[OF evs1(1)] by simp_all
qed



subsection \<open>More on dev_io\<close>

lemma gen_io_sent:
  assumes "gen_io e task m s = Ret x s'"
  shows "sent (new_events s s') = [(task, m)]"
  using gen_io_state[OF assms] by (auto simp: new_events_def)

lemma dev_io_request_sent:
  assumes rq: "dev_io_request e op dev proc_e buf pos bytes s = Some (Ret (Inr l) s1)"
    and dp: "dmap_at s (major_of dev) = Some dp" "dmap_io dp = Gen_io"
  shows "\<exists>req. sent (new_events s s1) = [(dmap_driver dp, req)] \<and> IO_ENDPT req = l_ioproc l \<and>
           (l_safe l \<noteq> 0 \<longrightarrow> IO_GRANT req = l_gid l)"
proof -
  from rq dp obtain c s0 r m1 where
    conv: "safe_io_conversion e (dmap_driver dp) op (dev_io_gids s) proc_e buf (to_vir_bytes bytes) pos s = Ret c s0"
    and call: "call_io e (dmap_io dp) (dmap_driver dp)
                        ((env_uninit e)
                           \<lparr>m2_i2 := c_io_ept c,
                            m2_p1 := (if c_ret c \<noteq> 0 then c_gid c else buf),
                            m_type := c_op c,
                            m2_i1 := minor_of dev,
                            m2_l1 := c_pos c,
                            m2_i3 := bytes,
                            m2_l2 := 0\<rparr>)
                        (s0\<lparr>dev_io_gids := c_gids c\<rparr>) = Some (Ret (r, m1) s1)"
    and l: "l = \<lparr>l_gid = c_gid c, l_vec_grants = c_vec_grants c,
                                        l_safe = c_ret c, l_ioproc = c_io_ept c,
                                        l_dev_mess = m1\<rparr>"
    by (auto simp: dev_io_request_def and_then_Some_Ret split: option.splits if_splits outcome.splits prod.splits)
  let ?req = "(env_uninit e)
                           \<lparr>m2_i2 := c_io_ept c,
                            m2_p1 := (if c_ret c \<noteq> 0 then c_gid c else buf),
                            m_type := c_op c,
                            m2_i1 := minor_of dev,
                            m2_l1 := c_pos c,
                            m2_i3 := bytes,
                            m2_l2 := 0\<rparr>"
  from conv_frame(1)[OF conv] obtain evs1 where evs1: "mem_ext s s0 evs1" "sent evs1 = []"
    by blast
  from call dp(2) have g: "gen_io e (dmap_driver dp) ?req (s0\<lparr>dev_io_gids := c_gids c\<rparr>) = Ret (r, m1) s1"
    by (simp add: call_io_Gen_io)
  from gen_io_state[OF g] mem_ext_fields(13)[OF evs1(1)] evs1(2)
  have "sent (new_events s s1) = [(dmap_driver dp, ?req)]"
    by (auto simp: new_events_def)
  then show ?thesis using l by (intro exI[of _ ?req]) simp
qed


lemma mem_ext_dmap_at: "mem_ext s s' evs \<Longrightarrow> dmap_at s' k = dmap_at s k"
  by (auto simp: mem_ext_def dmap_at_def)

lemma dev_io_request_InrE:
  assumes "dev_io_request e op dev proc_e buf pos bytes s = Some (Ret (Inr l) s1)"
  obtains dp c s0 r m1 where
    "dmap_at s (major_of dev) = Some dp" "dmap_driver dp \<noteq> NONE"
    "safe_io_conversion e (dmap_driver dp) op (dev_io_gids s) proc_e buf (to_vir_bytes bytes) pos s = Ret c s0"
    "call_io e (dmap_io dp) (dmap_driver dp)
                        ((env_uninit e)
                           \<lparr>m2_i2 := c_io_ept c,
                            m2_p1 := (if c_ret c \<noteq> 0 then c_gid c else buf),
                            m_type := c_op c,
                            m2_i1 := minor_of dev,
                            m2_l1 := c_pos c,
                            m2_i3 := bytes,
                            m2_l2 := 0\<rparr>)
                        (s0\<lparr>dev_io_gids := c_gids c\<rparr>) = Some (Ret (r, m1) s1)"
    "l = \<lparr>l_gid = c_gid c, l_vec_grants = c_vec_grants c,
                                        l_safe = c_ret c, l_ioproc = c_io_ept c,
                                        l_dev_mess = m1\<rparr>"
  using assms
  by (auto simp: dev_io_request_def and_then_Some_Ret split: option.splits if_splits outcome.splits prod.splits)

lemma dev_io_request_dmap_at:
  assumes rq: "dev_io_request e op dev proc_e buf pos bytes s = Some (Ret (Inr l) s1)"
    and dp: "dmap_at s1 k = Some dp" "dmap_driver dp \<noteq> NONE"
  shows "dmap_at s k = Some dp"
proof -
  from rq obtain dp0 c s0 r m1 where
    d0: "dmap_at s (major_of dev) = Some dp0" "dmap_driver dp0 \<noteq> NONE" and
    conv: "safe_io_conversion e (dmap_driver dp0) op (dev_io_gids s) proc_e buf (to_vir_bytes bytes) pos s = Ret c s0"
    and call: "call_io e (dmap_io dp0) (dmap_driver dp0)
                        ((env_uninit e)
                           \<lparr>m2_i2 := c_io_ept c,
                            m2_p1 := (if c_ret c \<noteq> 0 then c_gid c else buf),
                            m_type := c_op c,
                            m2_i1 := minor_of dev,
                            m2_l1 := c_pos c,
                            m2_i3 := bytes,
                            m2_l2 := 0\<rparr>)
                        (s0\<lparr>dev_io_gids := c_gids c\<rparr>) = Some (Ret (r, m1) s1)"
    and l: "l = \<lparr>l_gid = c_gid c, l_vec_grants = c_vec_grants c,
                                        l_safe = c_ret c, l_ioproc = c_io_ept c,
                                        l_dev_mess = m1\<rparr>"
    by (rule dev_io_request_InrE)
  from conv_frame(1)[OF conv] obtain evs1 where evs1: "mem_ext s s0 evs1" by blast
  from io_ext_dmap_at[OF call_io_ext[OF call] dp]
  have "dmap_at (s0\<lparr>dev_io_gids := c_gids c\<rparr>) k = Some dp" .
  then have "dmap_at s0 k = Some dp" by (auto simp: dmap_at_def split: if_splits)
  with mem_ext_dmap_at[OF evs1] show ?thesis by simp
qed


subsection \<open>dev_bio\<close>

lemma revoked_map_Ev_revoke [simp]: "revoked (map Ev_revoke gs) = gs"
  by (induction gs) simp_all

lemma minted_map_Ev_revoke [simp]: "minted (map Ev_revoke gs) = []"
  by (induction gs) simp_all

lemma dev_bio_attempt_balance:
  assumes "dev_bio_attempt e op dev proc_e buf pos bytes m dp s = Some (Ret x s1)"
  shows "\<exists>evs_m evs_io. new_events s s1 = evs_m @ evs_io @ map Ev_revoke (minted evs_m)
            \<and> revoked evs_m = [] \<and> sent evs_m = [] \<and> minted evs_io = [] \<and> revoked evs_io = []
            \<and> (dmap_io dp = Gen_io \<longrightarrow> map fst (sent evs_io) = [dmap_driver dp])"
proof -
  from assms obtain c s0 r m1 s2 where
    conv: "safe_io_conversion e (dmap_driver dp) op (dev_bio_gids s) proc_e buf (to_vir_bytes bytes) pos s = Ret c s0"
    and call: "call_io e (dmap_io dp) (dmap_driver dp)
               (m\<lparr>m2_i2 := c_io_ept c,
                  m2_p1 := (if c_ret c \<noteq> 0 then c_gid c else buf),
                  m_type := c_op c,
                  m2_i1 := minor_of dev,
                  m2_l1 := c_pos c,
                  m2_i3 := bytes,
                  m2_l2 := 0\<rparr>)
               (s0\<lparr>dev_bio_gids := c_gids c\<rparr>) = Some (Ret (r, m1) s2)"
    and s1: "s1 = (if c_ret c \<noteq> 0
                        then safe_io_cleanup (c_gid c) (c_gids c) (c_vec_grants c) s2
                        else s2)"
    by (auto simp: dev_bio_attempt_def and_then_Some_Ret split: outcome.splits prod.splits)
  define req where "req = m\<lparr>m2_i2 := c_io_ept c,
                  m2_p1 := (if c_ret c \<noteq> 0 then c_gid c else buf),
                  m_type := c_op c,
                  m2_i1 := minor_of dev,
                  m2_l1 := c_pos c,
                  m2_i3 := bytes,
                  m2_l2 := 0\<rparr>"
  define sa where "sa = s0\<lparr>dev_bio_gids := c_gids c\<rparr>"
  note call' = call[folded req_def sa_def]
  from conv_frame(1)[OF conv] obtain evs1 where evs1: "mem_ext s s0 evs1" "revoked evs1 = []"
     "sent evs1 = []"
     "minted evs1 = (if c_ret c \<noteq> 0 then c_gid c # map (c_gids c) [0..<c_vec_grants c] else [])"
    by blast
  from call_io_ext[OF call'] obtain evs2 where evs2:
     "trace s2 = trace sa @ evs2" "minted evs2 = []" "revoked evs2 = []"
    by (rule io_ext_trace)
  have tr: "trace s2 = trace s @ evs1 @ evs2"
    using evs2(1) mem_ext_fields(13)[OF evs1(1)] by (simp add: sa_def)
  have ne: "new_events s s1 = evs1 @ evs2 @ map Ev_revoke (minted evs1)"
    using s1 tr evs1(4) by (simp add: cleanup_state new_events_def)
  have gen: "dmap_io dp = Gen_io \<longrightarrow> map fst (sent evs2) = [dmap_driver dp]"
  proof
    assume g: "dmap_io dp = Gen_io"
    from call' g have "gen_io e (dmap_driver dp) req sa = Ret (r, m1) s2"
      by (simp add: call_io_Gen_io)
    from gen_io_sent[OF this] have "sent (new_events sa s2) = [(dmap_driver dp, req)]" .
    moreover have "new_events sa s2 = evs2" using evs2(1) by (rule new_events_append)
    ultimately show "map fst (sent evs2) = [dmap_driver dp]" by simp
  qed
  from ne evs1(2,3) evs2(2,3) gen
  have "new_events s s1 = evs1 @ evs2 @ map Ev_revoke (minted evs1)
            \<and> revoked evs1 = [] \<and> sent evs1 = [] \<and> minted evs2 = [] \<and> revoked evs2 = []
            \<and> (dmap_io dp = Gen_io \<longrightarrow> map fst (sent evs2) = [dmap_driver dp])"
    by (intro conjI)
  then show ?thesis
    by (intro exI[of _ evs1] exI[of _ evs2])
qed

lemma dev_bio_loop_not_SUSPEND:
  assumes "dev_bio_loop e op dev proc_e buf pos bytes m s = Some y"
  shows "y \<noteq> Ret SUSPEND s'"
proof (rule dev_bio_loop.raw_induct[where P="\<lambda>e op dev proc_e buf pos bytes m s y. y \<noteq> Ret SUSPEND s'", OF _ assms], goal_cases)
  case (1 f e op dev proc_e buf pos bytes m s y)
  show ?case
  proof -
    show "y \<noteq> Ret SUSPEND s'"
    proof
      assume y: "y = Ret SUSPEND s'"
      note body = 1(2)[unfolded y]
      from body obtain dp where dp: "dmap_at s (major_of dev) = Some dp"
        by (cases "dmap_at s (major_of dev)") simp_all
      from body dp have nn: "dmap_driver dp \<noteq> NONE"
        by (auto simp: k_defs split: if_splits)
      from body dp nn obtain res where
        att: "dev_bio_attempt e op dev proc_e buf pos bytes m dp s = Some res"
        and rest: "(case res of
                 Fault \<Rightarrow> Some Fault
               | Panic msg s1 \<Rightarrow> Some (Panic msg s1)
               | Ret (m1, buf_used, pos1) s1 \<Rightarrow>
                   (case dmap_at s1 (major_of dev) of
                      None \<Rightarrow> Some Fault
                    | Some dp1 \<Rightarrow>
                        if dmap_driver dp1 = NONE then
                          Option.bind (dev_bio_wait e (major_of dev) s1)
                            (\<lambda>w. case w of
                               Fault \<Rightarrow> Some Fault
                             | Panic msg s2 \<Rightarrow> Some (Panic msg s2)
                             | Ret src s2 \<Rightarrow>
                                 f e op dev proc_e buf pos1 bytes
                                   (m1\<lparr>m_source := src\<rparr>) s2)
                        else if REP_STATUS m1 = SUSPEND
                        then Some (Panic ''dev_bio: driver returned SUSPEND'' s1)
                        else if buf \<noteq> buf_used then
                          (case memcpy_iovec buf buf_used bytes s1 of
                             None \<Rightarrow> Some Fault
                           | Some s2 \<Rightarrow> Some (Ret (REP_STATUS m1) s2))
                        else Some (Ret (REP_STATUS m1) s1))) = Some (Ret SUSPEND s')"
        by (simp add: Option.bind_eq_Some_conv) blast
      from rest obtain m1 bu p1 s1 where res: "res = Ret (m1, bu, p1) s1"
        by (cases res) auto
      from rest res obtain dp1 where dp1: "dmap_at s1 (major_of dev) = Some dp1"
        by (cases "dmap_at s1 (major_of dev)") simp_all
      show False
      proof (cases "dmap_driver dp1 = NONE")
        case True
        with rest res dp1 obtain w where
          w: "(case w of
                               Fault \<Rightarrow> Some Fault
                             | Panic msg s2 \<Rightarrow> Some (Panic msg s2)
                             | Ret src s2 \<Rightarrow>
                                 f e op dev proc_e buf p1 bytes
                                   (m1\<lparr>m_source := src\<rparr>) s2) = Some (Ret SUSPEND s')"
          by (simp add: Option.bind_eq_Some_conv) blast
        then obtain src s2 where "f e op dev proc_e buf p1 bytes (m1\<lparr>m_source := src\<rparr>) s2 = Some (Ret SUSPEND s')"
          by (cases w) auto
        from 1(1)[OF this] show False by blast
      next
        case False
        with rest res dp1 show False
          by (simp split: if_splits option.splits)
      qed
    qed
  qed
qed

lemma dev_bio_loop_pass:
  assumes "dmap_at s (major_of dev) = Some dp" "dmap_driver dp \<noteq> NONE"
    and "dev_bio_attempt e op dev proc_e buf pos bytes m dp s = Some (Ret (m1, bu, p1) s1)"
    and "dmap_at s1 (major_of dev) = Some dp1"
  shows "dev_bio_loop e op dev proc_e buf pos bytes m s =
           (if dmap_driver dp1 = NONE then
              Option.bind (dev_bio_wait e (major_of dev) s1)
                (\<lambda>w. case w of
                   Fault \<Rightarrow> Some Fault
                 | Panic msg s2 \<Rightarrow> Some (Panic msg s2)
                 | Ret src s2 \<Rightarrow>
                     dev_bio_loop e op dev proc_e buf p1 bytes (m1\<lparr>m_source := src\<rparr>) s2)
            else if REP_STATUS m1 = SUSPEND
            then Some (Panic ''dev_bio: driver returned SUSPEND'' s1)
            else if buf \<noteq> bu then
              (case memcpy_iovec buf bu bytes s1 of
                 None \<Rightarrow> Some Fault
               | Some s2 \<Rightarrow> Some (Ret (REP_STATUS m1) s2))
            else Some (Ret (REP_STATUS m1) s1))"
  by (subst dev_bio_loop.simps) (simp add: assms)

lemma dev_bio_loop_stop:
  assumes "dmap_at s (major_of dev) = Some dp" "dmap_driver dp \<noteq> NONE"
  shows "dev_bio_attempt e op dev proc_e buf pos bytes m dp s = Some (Panic msg s1) \<Longrightarrow>
           dev_bio_loop e op dev proc_e buf pos bytes m s = Some (Panic msg s1)"
    and "dev_bio_attempt e op dev proc_e buf pos bytes m dp s = Some Fault \<Longrightarrow>
           dev_bio_loop e op dev proc_e buf pos bytes m s = Some Fault"
  by (subst dev_bio_loop.simps, simp add: assms)+

lemma memcpy_iovec_trace: "memcpy_iovec buf bu bytes s = Some s' \<Longrightarrow> trace s' = trace s"
  by (auto simp: memcpy_iovec_def Let_def split: if_splits)

lemmas run_defs = dev_io_def dev_io_request_def dev_io_reply_def dmap_at_def
     safe_io_conversion_def cpf_grant_magic_def emit_def conversion_result_def
     call_io_Gen_io gen_io_def sendrec_def safe_io_cleanup_def cpf_revoke_def suspend_def

section \<open>The claims\<close>

text \<open>
  Claim C6.  For every read or write that \<open>safe_io_conversion\<close> rewrites (it returns),
  the trace grows by exactly one event: one grant is minted by \<^verbatim>\<open>cpf_grant_magic\<close> for
  the driver, over the \<open>bytes\<close> bytes at \<open>buf\<close> in the address space of the I/O endpoint,
  with access \<open>CPF_WRITE\<close> for a read and \<open>CPF_READ\<close> for a write.  The operation becomes
  its safe variant, and the I/O endpoint of the message becomes the file server.
\<close>

theorem safe_io_conversion_read_write:
  assumes "op = DEV_READ \<or> op = DEV_WRITE"
    and "safe_io_conversion e driver op gids io_ept buf bytes pos s = Ret c s'"
  shows "new_events s s' =
           [Ev_grant_magic driver io_ept buf bytes (if op = DEV_READ then CPF_WRITE else CPF_READ)
              (c_gid c)]
         \<and> minted (new_events s s') = [c_gid c]
         \<and> GRANT_VALID (c_gid c)
         \<and> c_op c = (if op = DEV_READ then DEV_READ_S else DEV_WRITE_S)
         \<and> c_io_ept c = FS_PROC_NR
         \<and> c_ret c = 1 \<and> c_buf c = buf \<and> c_vec_grants c = 0 \<and> c_pos c = pos"
proof -
  define acc where "acc = (if (if op = DEV_READ then DEV_READ_S else DEV_WRITE_S) = DEV_READ_S then CPF_WRITE else CPF_READ)"
  define g where "g = env_grant_magic e (trace s) driver io_ept buf bytes acc"
  from assms have *: "g \<ge> 0" "s' = emit (Ev_grant_magic driver io_ept buf bytes acc g) s"
       "c = \<lparr>c_ret = 1, c_gid = g, c_op = (if op = DEV_READ then DEV_READ_S else DEV_WRITE_S), c_gids = gids,
             c_io_ept = FS_PROC_NR, c_buf = buf, c_vec_grants = 0, c_pos = pos\<rparr>"
    by (auto simp: safe_io_conversion_def cpf_grant_magic_def Let_def conversion_result_def acc_def g_def
           GRANT_VALID_def GRANT_INVALID_def split: if_splits)
  have acc: "acc = (if op = DEV_READ then CPF_WRITE else CPF_READ)"
    by (simp add: acc_def DEV_READ_S_def DEV_WRITE_S_def)
  show ?thesis
    using * acc by (simp add: new_events_def emit_def GRANT_VALID_def GRANT_INVALID_def)
qed

theorem safe_io_conversion_read_write_witness:
  "\<exists>c s'. safe_io_conversion (env_of (\<lambda>tr task m. reply_with 512 m)) 7 DEV_READ (\<lambda>j. 0) 17 4096 512 0 st0
             = Ret c s'
         \<and> new_events st0 s' = [Ev_grant_magic 7 17 4096 512 CPF_WRITE 3]
         \<and> c_op c = DEV_READ_S \<and> c_io_ept c = FS_PROC_NR"
proof -
  obtain c s' where run:
    "safe_io_conversion (env_of (\<lambda>tr task m. reply_with 512 m)) 7 DEV_READ (\<lambda>j. 0) 17 4096 512 0 st0 = Ret c s'"
    and g: "c_gid c = 3"
    by (simp add: safe_io_conversion_def cpf_grant_magic_def Let_def conversion_result_def emit_def
          scenario_defs grant_defs op_defs)
  from safe_io_conversion_read_write[OF _ run] g run show ?thesis by simp
qed

text \<open>
  Claim C1.  Take a call of \<open>dev_io\<close> that returns.  If, after the call of the I/O
  handler, the binding is still bound, the reply status is \<open>SUSPEND\<close> and the caller did
  not pass \<open>O_NONBLOCK\<close>, then \<open>dev_io\<close> returns \<open>SUSPEND\<close> and has revoked nothing, and the
  caller's process record holds the grant in \<open>fp_grant\<close> (the one grant minted, if one was)
  and the I/O endpoint of the request in \<open>fp_ioproc\<close>.  On every other path that returns
  (success, driver vanished, non-blocking cancel) the grants revoked are the grants
  minted, in the same order.  When the driver has vanished the value returned is \<open>EIO\<close>.
\<close>

theorem dev_io_revokes_minted_grants:
  assumes ret: "dev_io e op dev proc_e buf pos bytes flags s = Some (Ret r s')"
  shows "(if dev_io_suspends e op dev proc_e buf pos bytes flags s
          then r = SUSPEND \<and> revoked (new_events s s') = [] \<and>
               (\<exists>i. fp s' = Some i \<and> i < length (fproc s') \<and>
                    minted (new_events s s') =
                      (if GRANT_VALID (fp_grant (fproc s' ! i)) then [fp_grant (fproc s' ! i)] else []) \<and>
                    fp_ioproc (fproc s' ! i) =
                      (if minted (new_events s s') = [] then proc_e else FS_PROC_NR))
          else revoked (new_events s s') = minted (new_events s s'))
         \<and> (dev_io_driver_gone e op dev proc_e buf pos bytes s \<longrightarrow> r = EIO)"
proof -
  from ret obtain x s1 where req: "dev_io_request e op dev proc_e buf pos bytes s = Some (Ret x s1)"
    and rest: "(case x of Inl r0 \<Rightarrow> Some (Ret r0 s1) | Inr l \<Rightarrow> dev_io_reply e dev flags l s1) = Some (Ret r s')"
    by (auto simp: dev_io_def and_then_Some_Ret)
  show ?thesis
  proof (cases x)
    case (Inl r0)
    with rest have "s' = s1" by simp
    with dev_io_request_Inl[OF req[unfolded Inl]] have "s' = s" by simp
    then show ?thesis using req Inl by (simp add: dev_io_suspends_def dev_io_driver_gone_def)
  next
    case (Inr l)
    note rq = req[unfolded Inr]
    from rest Inr have rep: "dev_io_reply e dev flags l s1 = Some (Ret r s')" by simp
    from dev_io_request_Inr(1)[OF rq] obtain evs where evs: "trace s1 = trace s @ evs" "revoked evs = []"
       "minted evs = (if l_safe l \<noteq> 0 then l_gid l # map (dev_io_gids s1) [0..<l_vec_grants l] else [])"
      by blast
    note unsafe = dev_io_request_Inr(2)[OF rq]
    note safe = dev_io_request_Inr(3)[OF rq]
    from rep obtain dp where dp: "dmap_at s1 (major_of dev) = Some dp"
      by (auto simp: dev_io_reply_def split: option.splits)
    have susp: "dev_io_suspends e op dev proc_e buf pos bytes flags s
                 \<longleftrightarrow> dmap_driver dp \<noteq> NONE \<and> REP_STATUS (l_dev_mess l) = SUSPEND \<and> flags AND O_NONBLOCK = 0"
      by (simp add: dev_io_suspends_def rq dp)
    have gn: "dev_io_driver_gone e op dev proc_e buf pos bytes s \<longleftrightarrow> dmap_driver dp = NONE"
      by (simp add: dev_io_driver_gone_def rq dp)
    let ?cl = "\<lambda>s2. if l_safe l \<noteq> 0 then safe_io_cleanup (l_gid l) (dev_io_gids s2) (l_vec_grants l) s2 else s2"
    have cl: "\<And>s2 evs2. trace s2 = trace s @ evs @ evs2 \<Longrightarrow> dev_io_gids s2 = dev_io_gids s1 \<Longrightarrow>
               minted evs2 = [] \<Longrightarrow> revoked evs2 = [] \<Longrightarrow>
               revoked (new_events s (?cl s2)) = minted (new_events s (?cl s2))"
      using evs(2,3) by (simp add: cleanup_state new_events_def)
    consider (gone) "dmap_driver dp = NONE"
      | (cancel) "dmap_driver dp \<noteq> NONE" "REP_STATUS (l_dev_mess l) = SUSPEND" "flags AND O_NONBLOCK \<noteq> 0"
      | (suspend) "dmap_driver dp \<noteq> NONE" "REP_STATUS (l_dev_mess l) = SUSPEND" "flags AND O_NONBLOCK = 0"
      | (plain) "dmap_driver dp \<noteq> NONE" "REP_STATUS (l_dev_mess l) \<noteq> SUSPEND"
      by blast
    then show ?thesis
    proof cases
      case gone
      with rep dp have "r = EIO" "s' = ?cl s1"
        by (auto simp: dev_io_reply_def)
      with cl[of s1 "[]"] evs gone susp show ?thesis
        by (simp add: dev_io_driver_gone_def rq dp)
    next
      case cancel
      with rep dp obtain r2 m2 s2 where
        c: "call_io e (dmap_io dp) (dmap_driver dp) (cancel_mess dev l s1) s1 = Some (Ret (r2, m2) s2)"
        and s': "s' = ?cl s2"
        by (auto simp: dev_io_reply_def and_then_Some_Ret split: option.splits if_splits)
      from call_io_ext[OF c] obtain evs2 where evs2: "trace s2 = trace s1 @ evs2" "minted evs2 = []" "revoked evs2 = []"
        by (rule io_ext_trace)
      have "dev_io_gids s2 = dev_io_gids s1" using io_ext_fields(6)[OF call_io_ext[OF c]] .
      with cl[of s2 evs2] evs2 evs(1) s' cancel susp gn show ?thesis by simp
    next
      case suspend
      with rep dp obtain i where i: "fp s1 = Some i" "i < length (fproc s1)" "l_vec_grants l = 0"
        and r: "r = SUSPEND"
        and s': "s' = (suspend (dmap_driver dp) i s1)
                                 \<lparr>fproc := (fproc (suspend (dmap_driver dp) i s1))
                                    [i := (fproc (suspend (dmap_driver dp) i s1) ! i)
                                            \<lparr>fp_grant := l_gid l, fp_ioproc := l_ioproc l\<rparr>]\<rparr>"
        by (auto simp: dev_io_reply_def and_then_Some_Ret split: option.splits if_splits)
      have tr: "trace s' = trace s @ evs @ [Ev_suspend (dmap_driver dp)]"
        using s' evs(1) by (simp add: suspend_def emit_def)
      have fp': "fp s' = Some i" "i < length (fproc s')"
        "fp_grant (fproc s' ! i) = l_gid l" "fp_ioproc (fproc s' ! i) = l_ioproc l"
        using s' i by (simp_all add: suspend_def emit_def)
      have gv: "GRANT_VALID (l_gid l) \<longleftrightarrow> l_safe l \<noteq> 0"
        using safe unsafe by (auto simp: GRANT_VALID_def)
      have mi: "minted (new_events s s') = (if l_safe l \<noteq> 0 then [l_gid l] else [])"
        using tr evs(3) i(3) by (simp add: new_events_def)
      have rv: "revoked (new_events s s') = []"
        using tr evs(2) by (simp add: new_events_def)
      show ?thesis
        using suspend susp gn r fp' gv mi rv safe unsafe by auto
    next
      case plain
      with rep dp have "s' = ?cl s1"
        by (auto simp: dev_io_reply_def)
      with cl[of s1 "[]"] evs plain susp gn show ?thesis
        by simp
    qed
  qed
qed

theorem dev_io_revokes_minted_grants_witness:
  "(\<exists>r s'. dev_io (env_of (\<lambda>tr task m. reply_with 512 m)) DEV_READ 769 17 4096 0 512 0 st0 = Some (Ret r s')
           \<and> r = 512 \<and> minted (new_events st0 s') = [3] \<and> revoked (new_events st0 s') = [3])
   \<and> (\<exists>r s'. dev_io (env_of (\<lambda>tr task m. reply_with SUSPEND m)) DEV_READ 1024 17 4096 0 512 0 st0 = Some (Ret r s')
           \<and> r = SUSPEND \<and> minted (new_events st0 s') = [3] \<and> revoked (new_events st0 s') = []
           \<and> map fp_grant (fproc s') = [3])"
proof -
  let ?e1 = "env_of (\<lambda>tr task m. reply_with 512 m)"
  let ?e2 = "env_of (\<lambda>tr task m. reply_with SUSPEND m)"
  obtain r1 s1 where run1: "dev_io ?e1 DEV_READ 769 17 4096 0 512 0 st0 = Some (Ret r1 s1)"
    and v1: "r1 = 512" "minted (new_events st0 s1) = [3]"
    by (simp add: run_defs scenario_defs dev_defs grant_defs op_defs k_defs new_events_def)
  have ns1: "\<not> dev_io_suspends ?e1 DEV_READ 769 17 4096 0 512 0 st0"
    by (simp add: dev_io_suspends_def run_defs scenario_defs dev_defs grant_defs op_defs k_defs)
  obtain r2 s2 where run2: "dev_io ?e2 DEV_READ 1024 17 4096 0 512 0 st0 = Some (Ret r2 s2)"
    and v2: "minted (new_events st0 s2) = [3]" "map fp_grant (fproc s2) = [3]"
    by (simp add: run_defs scenario_defs dev_defs grant_defs op_defs k_defs new_events_def O_NONBLOCK_def)
  have su2: "dev_io_suspends ?e2 DEV_READ 1024 17 4096 0 512 0 st0"
    by (simp add: dev_io_suspends_def run_defs scenario_defs dev_defs grant_defs op_defs k_defs O_NONBLOCK_def)
  from dev_io_revokes_minted_grants[OF run1] ns1 v1 have "revoked (new_events st0 s1) = [3]" by simp
  moreover from dev_io_revokes_minted_grants[OF run2] su2 have "r2 = SUSPEND \<and> revoked (new_events st0 s2) = []" by simp
  ultimately show ?thesis using run1 run2 v1 v2 by simp
qed

text \<open>
  Claim C3 does not hold as it is stated: \<open>dev_io\<close> returns whatever status the driver
  gives to the \<open>CANCEL\<close> message, and no check keeps that status from being \<open>SUSPEND\<close>.
  A terminal driver that answers \<open>SUSPEND\<close> to the read and again to the \<open>CANCEL\<close> makes
  the non-blocking \<open>dev_io\<close> return \<open>SUSPEND\<close>.
\<close>

theorem dev_io_nonblocking_cancel_counterexample:
  "dev_io_reply_suspend (driver_replies SUSPEND) DEV_READ 1024 17 4096 0 512 st0
   \<and> O_NONBLOCK AND O_NONBLOCK \<noteq> 0
   \<and> returned (dev_io (driver_replies SUSPEND) DEV_READ 1024 17 4096 0 512 O_NONBLOCK st0) = Some SUSPEND"
  by (simp add: dev_io_reply_suspend_def returned_def run_defs cancel_mess_def scenario_defs dev_defs grant_defs op_defs k_defs
        O_NONBLOCK_def READ_def R_BIT_def)

text \<open>
  Claim C3, amended.  Take a call of \<open>dev_io\<close> with \<open>O_NONBLOCK\<close> set that returns, where
  after the call of the I/O handler the binding \<open>dp\<close> is still bound and the reply status
  is \<open>SUSPEND\<close>.  The binding is the one the request went through.  \<open>dev_io\<close> hands the
  message \<open>cancel_mess\<close> to the same handler for the same driver: its type is \<open>CANCEL\<close>,
  and it carries the grant and the I/O endpoint of the request.  \<open>dev_io\<close> returns the
  status of the reply to the \<open>CANCEL\<close>, with \<open>EINTR\<close> rewritten to \<open>EAGAIN\<close>; that value is
  \<open>SUSPEND\<close> exactly when the driver answers the \<open>CANCEL\<close> with \<open>SUSPEND\<close>.  The grant
  minted for the request is revoked.  When the handler is \<open>gen_io\<close>, exactly two messages
  go to the kernel, both for the driver of the binding: the request and the
  \<open>CANCEL\<close>.
\<close>

theorem dev_io_nonblocking_cancel:
  assumes ret: "dev_io e op dev proc_e buf pos bytes flags s = Some (Ret r s')"
    and rq: "dev_io_request e op dev proc_e buf pos bytes s = Some (Ret (Inr l) s1)"
    and dp: "dmap_at s1 (major_of dev) = Some dp" "dmap_driver dp \<noteq> NONE"
    and susp: "REP_STATUS (l_dev_mess l) = SUSPEND"
    and nb: "flags AND O_NONBLOCK \<noteq> 0"
  shows "dmap_at s (major_of dev) = Some dp
       \<and> (\<exists>r2 m2 s2. call_io e (dmap_io dp) (dmap_driver dp) (cancel_mess dev l s1) s1
                         = Some (Ret (r2, m2) s2)
             \<and> r = (if REP_STATUS m2 = EINTR then EAGAIN else REP_STATUS m2)
             \<and> (r = SUSPEND \<longleftrightarrow> REP_STATUS m2 = SUSPEND))
       \<and> m_type (cancel_mess dev l s1) = CANCEL
       \<and> IO_GRANT (cancel_mess dev l s1) = l_gid l
       \<and> IO_ENDPT (cancel_mess dev l s1) = l_ioproc l
       \<and> revoked (new_events s s') = minted (new_events s s')
       \<and> minted (new_events s s') = (if l_safe l \<noteq> 0 then [l_gid l] else [])
       \<and> (dmap_io dp = Gen_io \<longrightarrow>
            (\<exists>req. sent (new_events s s')
                     = [(dmap_driver dp, req), (dmap_driver dp, cancel_mess dev l s1)]
                  \<and> IO_ENDPT req = l_ioproc l \<and> (l_safe l \<noteq> 0 \<longrightarrow> IO_GRANT req = l_gid l)))"
proof -
  let ?cl = "\<lambda>s2. if l_safe l \<noteq> 0 then safe_io_cleanup (l_gid l) (dev_io_gids s2) (l_vec_grants l) s2 else s2"
  from ret rq have rep: "dev_io_reply e dev flags l s1 = Some (Ret r s')"
    by (simp add: dev_io_def)
  from rep dp susp nb obtain r2 m2 s2 where
    c: "call_io e (dmap_io dp) (dmap_driver dp) (cancel_mess dev l s1) s1 = Some (Ret (r2, m2) s2)"
    and r: "r = (if REP_STATUS m2 = EINTR then EAGAIN else REP_STATUS m2)"
    and s': "s' = ?cl s2" and nv: "l_vec_grants l = 0"
    by (auto simp: dev_io_reply_def and_then_Some_Ret split: option.splits if_splits)
  from dev_io_request_Inr(1)[OF rq] nv obtain evs where evs: "trace s1 = trace s @ evs" "revoked evs = []"
       "minted evs = (if l_safe l \<noteq> 0 then [l_gid l] else [])"
    by auto
  from call_io_ext[OF c] obtain evs2 where evs2: "trace s2 = trace s1 @ evs2" "minted evs2 = []" "revoked evs2 = []"
    by (rule io_ext_trace)
  have tr: "new_events s s' = evs @ evs2 @ (if l_safe l \<noteq> 0 then [Ev_revoke (l_gid l)] else [])"
    using s' evs(1) evs2(1) nv by (simp add: cleanup_state new_events_def)
  have d0: "dmap_at s (major_of dev) = Some dp"
    using dev_io_request_dmap_at[OF rq dp] .
  have a: "revoked (new_events s s') = minted (new_events s s')"
          "minted (new_events s s') = (if l_safe l \<noteq> 0 then [l_gid l] else [])"
    using tr evs evs2 by simp_all
  have b: "r = SUSPEND \<longleftrightarrow> REP_STATUS m2 = SUSPEND"
    using r by (simp add: k_defs)
  have g: "dmap_io dp = Gen_io \<longrightarrow>
            (\<exists>req. sent (new_events s s')
                     = [(dmap_driver dp, req), (dmap_driver dp, cancel_mess dev l s1)]
                  \<and> IO_ENDPT req = l_ioproc l \<and> (l_safe l \<noteq> 0 \<longrightarrow> IO_GRANT req = l_gid l))"
  proof
    assume gen: "dmap_io dp = Gen_io"
    from dev_io_request_sent[OF rq d0 gen] obtain req where req:
      "sent (new_events s s1) = [(dmap_driver dp, req)]" "IO_ENDPT req = l_ioproc l"
      "l_safe l \<noteq> 0 \<longrightarrow> IO_GRANT req = l_gid l" by blast
    from c gen have "gen_io e (dmap_driver dp) (cancel_mess dev l s1) s1 = Ret (r2, m2) s2"
      by (simp add: call_io_Gen_io)
    from gen_io_sent[OF this] evs2(1) have "sent evs2 = [(dmap_driver dp, cancel_mess dev l s1)]"
      by (simp add: new_events_def)
    moreover from req(1) evs(1) have "sent evs = [(dmap_driver dp, req)]" by (simp add: new_events_def)
    ultimately have "sent (new_events s s') = [(dmap_driver dp, req), (dmap_driver dp, cancel_mess dev l s1)]"
      using tr by simp
    with req show "\<exists>req. sent (new_events s s')
                     = [(dmap_driver dp, req), (dmap_driver dp, cancel_mess dev l s1)]
                  \<and> IO_ENDPT req = l_ioproc l \<and> (l_safe l \<noteq> 0 \<longrightarrow> IO_GRANT req = l_gid l)"
      by blast
  qed
  have m: "m_type (cancel_mess dev l s1) = CANCEL" "IO_GRANT (cancel_mess dev l s1) = l_gid l"
       "IO_ENDPT (cancel_mess dev l s1) = l_ioproc l"
    by (simp_all add: cancel_mess_def)
  from c r b have "\<exists>r2 m2 s2. call_io e (dmap_io dp) (dmap_driver dp) (cancel_mess dev l s1) s1
                         = Some (Ret (r2, m2) s2)
             \<and> r = (if REP_STATUS m2 = EINTR then EAGAIN else REP_STATUS m2)
             \<and> (r = SUSPEND \<longleftrightarrow> REP_STATUS m2 = SUSPEND)" by blast
  with d0 m a g show ?thesis by blast
qed


theorem dev_io_nonblocking_cancel_witness:
  "\<exists>r s'. dev_io (driver_suspends EINTR) DEV_READ 1024 17 4096 0 512 O_NONBLOCK st0 = Some (Ret r s')
          \<and> r = EAGAIN \<and> minted (new_events st0 s') = [3] \<and> revoked (new_events st0 s') = [3]
          \<and> map fst (sent (new_events st0 s')) = [8, 8]
          \<and> map (m_type \<circ> snd) (sent (new_events st0 s')) = [DEV_READ_S, CANCEL]"
proof -
  let ?e = "driver_suspends EINTR"
  obtain l s1 where rq: "dev_io_request ?e DEV_READ 1024 17 4096 0 512 st0 = Some (Ret (Inr l) s1)"
    and dp: "dmap_at s1 (major_of 1024) = Some \<lparr>dmap_opcl = Tty_opcl, dmap_io = Gen_io, dmap_driver = 8\<rparr>"
    and su: "REP_STATUS (l_dev_mess l) = SUSPEND" and sf: "l_safe l \<noteq> 0" "l_gid l = 3"
    by (simp add: run_defs scenario_defs dev_defs grant_defs op_defs k_defs)
  obtain r s' where ret: "dev_io ?e DEV_READ 1024 17 4096 0 512 O_NONBLOCK st0 = Some (Ret r s')"
    and r: "r = EAGAIN" and ty: "map (m_type \<circ> snd) (sent (new_events st0 s')) = [DEV_READ_S, CANCEL]"
    by (simp add: run_defs cancel_mess_def scenario_defs dev_defs grant_defs op_defs k_defs O_NONBLOCK_def
          READ_def R_BIT_def new_events_def)
  have nb: "O_NONBLOCK AND O_NONBLOCK \<noteq> 0" by (simp add: O_NONBLOCK_def)
  from dev_io_nonblocking_cancel[OF ret rq dp _ su nb] sf
  have "revoked (new_events st0 s') = [3]" "minted (new_events st0 s') = [3]"
       "map fst (sent (new_events st0 s')) = [8, 8]"
    by (auto simp: k_defs)
  with ret r ty show ?thesis by simp
qed






text \<open>
  Claim C2.  \<open>dev_bio\<close> panics when the caller endpoint is not the file server, and is
  otherwise its loop, entered with the message as it lies on the stack.  A call of
  \<open>dev_bio\<close> that returns does not return \<open>SUSPEND\<close>.  Every pass of the loop, the first
  as well as one that follows the restart of a driver, in which the I/O handler returns
  adds to the trace, in this order: the grants minted by the conversion (no message, no
  revocation), the events of the dispatch (for \<open>gen_io\<close>, one message to the binding's
  driver), and then the revocation of exactly the grants minted, whatever the reply
  status.  What \<open>dev_bio\<close> then does is fixed by the binding and the reply status: with
  the binding still bound it panics in the state after the revocation when the status is
  \<open>SUSPEND\<close>, and otherwise returns the status with the trace of that state (or faults
  in the \<^verbatim>\<open>memcpy\<close> of a converted vector); with the binding gone it waits for a new driver
  and enters the loop again.  A pass that panics or faults stops \<open>dev_bio\<close> likewise.
\<close>

theorem dev_bio_never_suspends:
  "(proc_e \<noteq> FS_PROC_NR \<longrightarrow>
      dev_bio e op dev proc_e buf pos bytes s = Some (Panic ''doing dev_bio for non-self'' s))
   \<and> (proc_e = FS_PROC_NR \<longrightarrow>
      dev_bio e op dev proc_e buf pos bytes s
        = dev_bio_loop e op dev proc_e buf pos bytes (env_uninit e) s)
   \<and> (\<forall>r s'. dev_bio e op dev proc_e buf pos bytes s = Some (Ret r s') \<longrightarrow> r \<noteq> SUSPEND)
   \<and> (\<forall>m dp m1 bu p1 s1.
         dmap_at s (major_of dev) = Some dp \<and> dmap_driver dp \<noteq> NONE \<and>
         dev_bio_attempt e op dev proc_e buf pos bytes m dp s = Some (Ret (m1, bu, p1) s1) \<longrightarrow>
           (\<exists>evs_m evs_io.
               new_events s s1 = evs_m @ evs_io @ map Ev_revoke (minted evs_m) \<and>
               revoked evs_m = [] \<and> sent evs_m = [] \<and>
               minted evs_io = [] \<and> revoked evs_io = [] \<and>
               (dmap_io dp = Gen_io \<longrightarrow> map fst (sent evs_io) = [dmap_driver dp])) \<and>
           (\<forall>dp1. dmap_at s1 (major_of dev) = Some dp1 \<and> dmap_driver dp1 \<noteq> NONE \<longrightarrow>
              (REP_STATUS m1 = SUSPEND \<longrightarrow>
                 dev_bio_loop e op dev proc_e buf pos bytes m s
                   = Some (Panic ''dev_bio: driver returned SUSPEND'' s1)) \<and>
              (REP_STATUS m1 \<noteq> SUSPEND \<and> buf = bu \<longrightarrow>
                 dev_bio_loop e op dev proc_e buf pos bytes m s = Some (Ret (REP_STATUS m1) s1)) \<and>
              (REP_STATUS m1 \<noteq> SUSPEND \<and> buf \<noteq> bu \<longrightarrow>
                 (memcpy_iovec buf bu bytes s1 = None \<and>
                  dev_bio_loop e op dev proc_e buf pos bytes m s = Some Fault) \<or>
                 (\<exists>s'. memcpy_iovec buf bu bytes s1 = Some s' \<and> trace s' = trace s1 \<and>
                    dev_bio_loop e op dev proc_e buf pos bytes m s
                      = Some (Ret (REP_STATUS m1) s')))) \<and>
           (\<forall>dp1. dmap_at s1 (major_of dev) = Some dp1 \<and> dmap_driver dp1 = NONE \<longrightarrow>
              dev_bio_loop e op dev proc_e buf pos bytes m s
                = Option.bind (dev_bio_wait e (major_of dev) s1)
                    (\<lambda>w. case w of
                       Fault \<Rightarrow> Some Fault
                     | Panic msg s2 \<Rightarrow> Some (Panic msg s2)
                     | Ret src s2 \<Rightarrow>
                         dev_bio_loop e op dev proc_e buf p1 bytes (m1\<lparr>m_source := src\<rparr>) s2)))
   \<and> (\<forall>m dp msg s1.
         dmap_at s (major_of dev) = Some dp \<and> dmap_driver dp \<noteq> NONE \<longrightarrow>
           (dev_bio_attempt e op dev proc_e buf pos bytes m dp s = Some (Panic msg s1) \<longrightarrow>
              dev_bio_loop e op dev proc_e buf pos bytes m s = Some (Panic msg s1)) \<and>
           (dev_bio_attempt e op dev proc_e buf pos bytes m dp s = Some Fault \<longrightarrow>
              dev_bio_loop e op dev proc_e buf pos bytes m s = Some Fault))"
proof -
  have c1: "proc_e \<noteq> FS_PROC_NR \<longrightarrow>
      dev_bio e op dev proc_e buf pos bytes s = Some (Panic ''doing dev_bio for non-self'' s)"
    by (simp add: dev_bio_def)
  have c2: "proc_e = FS_PROC_NR \<longrightarrow>
      dev_bio e op dev proc_e buf pos bytes s
        = dev_bio_loop e op dev proc_e buf pos bytes (env_uninit e) s"
    by (simp add: dev_bio_def)
  have c3: "\<forall>r s'. dev_bio e op dev proc_e buf pos bytes s = Some (Ret r s') \<longrightarrow> r \<noteq> SUSPEND"
  proof (intro allI impI)
    fix r s'
    assume "dev_bio e op dev proc_e buf pos bytes s = Some (Ret r s')"
    then have "dev_bio_loop e op dev proc_e buf pos bytes (env_uninit e) s = Some (Ret r s')"
      by (simp add: dev_bio_def split: if_splits)
    from dev_bio_loop_not_SUSPEND[OF this, of s'] have "Ret r s' \<noteq> Ret SUSPEND s'" .
    then show "r \<noteq> SUSPEND" by simp
  qed
  have c4: "\<forall>m dp m1 bu p1 s1.
         dmap_at s (major_of dev) = Some dp \<and> dmap_driver dp \<noteq> NONE \<and>
         dev_bio_attempt e op dev proc_e buf pos bytes m dp s = Some (Ret (m1, bu, p1) s1) \<longrightarrow>
           (\<exists>evs_m evs_io.
               new_events s s1 = evs_m @ evs_io @ map Ev_revoke (minted evs_m) \<and>
               revoked evs_m = [] \<and> sent evs_m = [] \<and>
               minted evs_io = [] \<and> revoked evs_io = [] \<and>
               (dmap_io dp = Gen_io \<longrightarrow> map fst (sent evs_io) = [dmap_driver dp])) \<and>
           (\<forall>dp1. dmap_at s1 (major_of dev) = Some dp1 \<and> dmap_driver dp1 \<noteq> NONE \<longrightarrow>
              (REP_STATUS m1 = SUSPEND \<longrightarrow>
                 dev_bio_loop e op dev proc_e buf pos bytes m s
                   = Some (Panic ''dev_bio: driver returned SUSPEND'' s1)) \<and>
              (REP_STATUS m1 \<noteq> SUSPEND \<and> buf = bu \<longrightarrow>
                 dev_bio_loop e op dev proc_e buf pos bytes m s = Some (Ret (REP_STATUS m1) s1)) \<and>
              (REP_STATUS m1 \<noteq> SUSPEND \<and> buf \<noteq> bu \<longrightarrow>
                 (memcpy_iovec buf bu bytes s1 = None \<and>
                  dev_bio_loop e op dev proc_e buf pos bytes m s = Some Fault) \<or>
                 (\<exists>s'. memcpy_iovec buf bu bytes s1 = Some s' \<and> trace s' = trace s1 \<and>
                    dev_bio_loop e op dev proc_e buf pos bytes m s
                      = Some (Ret (REP_STATUS m1) s')))) \<and>
           (\<forall>dp1. dmap_at s1 (major_of dev) = Some dp1 \<and> dmap_driver dp1 = NONE \<longrightarrow>
              dev_bio_loop e op dev proc_e buf pos bytes m s
                = Option.bind (dev_bio_wait e (major_of dev) s1)
                    (\<lambda>w. case w of
                       Fault \<Rightarrow> Some Fault
                     | Panic msg s2 \<Rightarrow> Some (Panic msg s2)
                     | Ret src s2 \<Rightarrow>
                         dev_bio_loop e op dev proc_e buf p1 bytes (m1\<lparr>m_source := src\<rparr>) s2))"
  proof (intro allI impI)
    fix m dp m1 bu p1 s1
    assume a: "dmap_at s (major_of dev) = Some dp \<and> dmap_driver dp \<noteq> NONE \<and>
         dev_bio_attempt e op dev proc_e buf pos bytes m dp s = Some (Ret (m1, bu, p1) s1)"
    then have a1: "dmap_at s (major_of dev) = Some dp" and a2: "dmap_driver dp \<noteq> NONE"
      and a3: "dev_bio_attempt e op dev proc_e buf pos bytes m dp s = Some (Ret (m1, bu, p1) s1)"
      by simp_all
    note bal = dev_bio_attempt_balance[OF a3]
    have bound: "\<forall>dp1. dmap_at s1 (major_of dev) = Some dp1 \<and> dmap_driver dp1 \<noteq> NONE \<longrightarrow>
              (REP_STATUS m1 = SUSPEND \<longrightarrow>
                 dev_bio_loop e op dev proc_e buf pos bytes m s
                   = Some (Panic ''dev_bio: driver returned SUSPEND'' s1)) \<and>
              (REP_STATUS m1 \<noteq> SUSPEND \<and> buf = bu \<longrightarrow>
                 dev_bio_loop e op dev proc_e buf pos bytes m s = Some (Ret (REP_STATUS m1) s1)) \<and>
              (REP_STATUS m1 \<noteq> SUSPEND \<and> buf \<noteq> bu \<longrightarrow>
                 (memcpy_iovec buf bu bytes s1 = None \<and>
                  dev_bio_loop e op dev proc_e buf pos bytes m s = Some Fault) \<or>
                 (\<exists>s'. memcpy_iovec buf bu bytes s1 = Some s' \<and> trace s' = trace s1 \<and>
                    dev_bio_loop e op dev proc_e buf pos bytes m s
                      = Some (Ret (REP_STATUS m1) s')))"
    proof (intro allI impI)
      fix dp1
      assume b: "dmap_at s1 (major_of dev) = Some dp1 \<and> dmap_driver dp1 \<noteq> NONE"
      then have b1: "dmap_at s1 (major_of dev) = Some dp1" and b2: "dmap_driver dp1 \<noteq> NONE"
        by simp_all
      note pass = dev_bio_loop_pass[OF a1 a2 a3 b1]
      show "(REP_STATUS m1 = SUSPEND \<longrightarrow>
                 dev_bio_loop e op dev proc_e buf pos bytes m s
                   = Some (Panic ''dev_bio: driver returned SUSPEND'' s1)) \<and>
              (REP_STATUS m1 \<noteq> SUSPEND \<and> buf = bu \<longrightarrow>
                 dev_bio_loop e op dev proc_e buf pos bytes m s = Some (Ret (REP_STATUS m1) s1)) \<and>
              (REP_STATUS m1 \<noteq> SUSPEND \<and> buf \<noteq> bu \<longrightarrow>
                 (memcpy_iovec buf bu bytes s1 = None \<and>
                  dev_bio_loop e op dev proc_e buf pos bytes m s = Some Fault) \<or>
                 (\<exists>s'. memcpy_iovec buf bu bytes s1 = Some s' \<and> trace s' = trace s1 \<and>
                    dev_bio_loop e op dev proc_e buf pos bytes m s
                      = Some (Ret (REP_STATUS m1) s')))"
        unfolding pass using b2
        by (cases "memcpy_iovec buf bu bytes s1") (auto simp: memcpy_iovec_trace)
    qed
    have gone: "\<forall>dp1. dmap_at s1 (major_of dev) = Some dp1 \<and> dmap_driver dp1 = NONE \<longrightarrow>
              dev_bio_loop e op dev proc_e buf pos bytes m s
                = Option.bind (dev_bio_wait e (major_of dev) s1)
                    (\<lambda>w. case w of
                       Fault \<Rightarrow> Some Fault
                     | Panic msg s2 \<Rightarrow> Some (Panic msg s2)
                     | Ret src s2 \<Rightarrow>
                         dev_bio_loop e op dev proc_e buf p1 bytes (m1\<lparr>m_source := src\<rparr>) s2)"
    proof (intro allI impI)
      fix dp1
      assume b: "dmap_at s1 (major_of dev) = Some dp1 \<and> dmap_driver dp1 = NONE"
      then have b1: "dmap_at s1 (major_of dev) = Some dp1" and b2: "dmap_driver dp1 = NONE"
        by simp_all
      show "dev_bio_loop e op dev proc_e buf pos bytes m s
                = Option.bind (dev_bio_wait e (major_of dev) s1)
                    (\<lambda>w. case w of
                       Fault \<Rightarrow> Some Fault
                     | Panic msg s2 \<Rightarrow> Some (Panic msg s2)
                     | Ret src s2 \<Rightarrow>
                         dev_bio_loop e op dev proc_e buf p1 bytes (m1\<lparr>m_source := src\<rparr>) s2)"
        unfolding dev_bio_loop_pass[OF a1 a2 a3 b1] using b2 by simp
    qed
    from bal bound gone
    show "(\<exists>evs_m evs_io.
               new_events s s1 = evs_m @ evs_io @ map Ev_revoke (minted evs_m) \<and>
               revoked evs_m = [] \<and> sent evs_m = [] \<and>
               minted evs_io = [] \<and> revoked evs_io = [] \<and>
               (dmap_io dp = Gen_io \<longrightarrow> map fst (sent evs_io) = [dmap_driver dp])) \<and>
           (\<forall>dp1. dmap_at s1 (major_of dev) = Some dp1 \<and> dmap_driver dp1 \<noteq> NONE \<longrightarrow>
              (REP_STATUS m1 = SUSPEND \<longrightarrow>
                 dev_bio_loop e op dev proc_e buf pos bytes m s
                   = Some (Panic ''dev_bio: driver returned SUSPEND'' s1)) \<and>
              (REP_STATUS m1 \<noteq> SUSPEND \<and> buf = bu \<longrightarrow>
                 dev_bio_loop e op dev proc_e buf pos bytes m s = Some (Ret (REP_STATUS m1) s1)) \<and>
              (REP_STATUS m1 \<noteq> SUSPEND \<and> buf \<noteq> bu \<longrightarrow>
                 (memcpy_iovec buf bu bytes s1 = None \<and>
                  dev_bio_loop e op dev proc_e buf pos bytes m s = Some Fault) \<or>
                 (\<exists>s'. memcpy_iovec buf bu bytes s1 = Some s' \<and> trace s' = trace s1 \<and>
                    dev_bio_loop e op dev proc_e buf pos bytes m s
                      = Some (Ret (REP_STATUS m1) s')))) \<and>
           (\<forall>dp1. dmap_at s1 (major_of dev) = Some dp1 \<and> dmap_driver dp1 = NONE \<longrightarrow>
              dev_bio_loop e op dev proc_e buf pos bytes m s
                = Option.bind (dev_bio_wait e (major_of dev) s1)
                    (\<lambda>w. case w of
                       Fault \<Rightarrow> Some Fault
                     | Panic msg s2 \<Rightarrow> Some (Panic msg s2)
                     | Ret src s2 \<Rightarrow>
                         dev_bio_loop e op dev proc_e buf p1 bytes (m1\<lparr>m_source := src\<rparr>) s2))"
      by (intro conjI)
  qed
  have c5: "\<forall>m dp msg s1.
         dmap_at s (major_of dev) = Some dp \<and> dmap_driver dp \<noteq> NONE \<longrightarrow>
           (dev_bio_attempt e op dev proc_e buf pos bytes m dp s = Some (Panic msg s1) \<longrightarrow>
              dev_bio_loop e op dev proc_e buf pos bytes m s = Some (Panic msg s1)) \<and>
           (dev_bio_attempt e op dev proc_e buf pos bytes m dp s = Some Fault \<longrightarrow>
              dev_bio_loop e op dev proc_e buf pos bytes m s = Some Fault)"
  proof (intro allI impI conjI)
    fix m dp msg s1
    assume a: "dmap_at s (major_of dev) = Some dp \<and> dmap_driver dp \<noteq> NONE"
      and p: "dev_bio_attempt e op dev proc_e buf pos bytes m dp s = Some (Panic msg s1)"
    from a have a1: "dmap_at s (major_of dev) = Some dp" and a2: "dmap_driver dp \<noteq> NONE"
      by simp_all
    show "dev_bio_loop e op dev proc_e buf pos bytes m s = Some (Panic msg s1)"
      using dev_bio_loop_stop(1)[OF a1 a2 p] .
  next
    fix m dp
    assume a: "dmap_at s (major_of dev) = Some dp \<and> dmap_driver dp \<noteq> NONE"
      and p: "dev_bio_attempt e op dev proc_e buf pos bytes m dp s = Some Fault"
    from a have a1: "dmap_at s (major_of dev) = Some dp" and a2: "dmap_driver dp \<noteq> NONE"
      by simp_all
    show "dev_bio_loop e op dev proc_e buf pos bytes m s = Some Fault"
      using dev_bio_loop_stop(2)[OF a1 a2 p] .
  qed
  from c1 c2 c3 c4 c5 show ?thesis by (intro conjI)
qed

theorem dev_bio_never_suspends_witness:
  "dev_bio (driver_replies SUSPEND) DEV_READ 769 17 4096 0 512 st0
     = Some (Panic ''doing dev_bio for non-self'' st0)
   \<and> (\<exists>s1. dev_bio (driver_replies SUSPEND) DEV_READ 769 FS_PROC_NR 4096 0 512 st0
              = Some (Panic ''dev_bio: driver returned SUSPEND'' s1)
          \<and> minted (new_events st0 s1) = [3] \<and> revoked (new_events st0 s1) = [3])
   \<and> (\<exists>s'. dev_bio (driver_replies 512) DEV_READ 769 FS_PROC_NR 4096 0 512 st0 = Some (Ret 512 s')
          \<and> minted (new_events st0 s') = [3] \<and> revoked (new_events st0 s') = [3]
          \<and> map fst (sent (new_events st0 s')) = [7])"
proof -
  let ?e = "driver_replies SUSPEND"
  let ?e2 = "driver_replies 512"
  let ?dp = "\<lparr>dmap_opcl = Gen_opcl, dmap_io = Gen_io, dmap_driver = 7\<rparr>"
  note thm1 = dev_bio_never_suspends[of 17 ?e DEV_READ 769 4096 0 512 st0]
  note thm2 = dev_bio_never_suspends[of FS_PROC_NR ?e DEV_READ 769 4096 0 512 st0]
  note thm3 = dev_bio_never_suspends[of FS_PROC_NR ?e2 DEV_READ 769 4096 0 512 st0]
  have a: "dev_bio ?e DEV_READ 769 17 4096 0 512 st0 = Some (Panic ''doing dev_bio for non-self'' st0)"
    using thm1 by (simp add: k_defs)
  have d: "dmap_at st0 (major_of 769) = Some ?dp" "dmap_driver ?dp \<noteq> NONE" "dmap_io ?dp = Gen_io"
    by (simp_all add: dmap_at_def scenario_defs dev_defs k_defs)
  obtain m1 bu p1 s1 where att:
    "dev_bio_attempt ?e DEV_READ 769 FS_PROC_NR 4096 0 512 (env_uninit ?e) ?dp st0 = Some (Ret (m1, bu, p1) s1)"
    and su: "REP_STATUS m1 = SUSPEND" and d1: "dmap_at s1 (major_of 769) = Some ?dp"
    and mi: "minted (new_events st0 s1) = [3]"
    by (simp add: dev_bio_attempt_def run_defs scenario_defs dev_defs grant_defs op_defs k_defs new_events_def)
  from thm2 d att have
    "\<exists>evs_m evs_io. new_events st0 s1 = evs_m @ evs_io @ map Ev_revoke (minted evs_m) \<and>
               revoked evs_m = [] \<and> sent evs_m = [] \<and> minted evs_io = [] \<and> revoked evs_io = [] \<and>
               (dmap_io ?dp = Gen_io \<longrightarrow> map fst (sent evs_io) = [dmap_driver ?dp])"
    by blast
  then have rv: "revoked (new_events st0 s1) = minted (new_events st0 s1)"
    by (elim exE conjE) simp
  from thm2 d att su d1 have
    "dev_bio_loop ?e DEV_READ 769 FS_PROC_NR 4096 0 512 (env_uninit ?e) st0
                = Some (Panic ''dev_bio: driver returned SUSPEND'' s1)"
    by blast
  moreover from thm2 have "dev_bio ?e DEV_READ 769 FS_PROC_NR 4096 0 512 st0
      = dev_bio_loop ?e DEV_READ 769 FS_PROC_NR 4096 0 512 (env_uninit ?e) st0"
    by blast
  ultimately have b: "\<exists>s1. dev_bio ?e DEV_READ 769 FS_PROC_NR 4096 0 512 st0
              = Some (Panic ''dev_bio: driver returned SUSPEND'' s1)
          \<and> minted (new_events st0 s1) = [3] \<and> revoked (new_events st0 s1) = [3]"
    using mi rv by simp
  obtain m2 bu2 p2 s2 where att2:
    "dev_bio_attempt ?e2 DEV_READ 769 FS_PROC_NR 4096 0 512 (env_uninit ?e2) ?dp st0 = Some (Ret (m2, bu2, p2) s2)"
    and st2: "REP_STATUS m2 = 512" and bu2: "bu2 = 4096" and d2: "dmap_at s2 (major_of 769) = Some ?dp"
    and mi2: "minted (new_events st0 s2) = [3]"
    by (simp add: dev_bio_attempt_def run_defs scenario_defs dev_defs grant_defs op_defs k_defs new_events_def)
  from thm3 d att2 have
    "\<exists>evs_m evs_io. new_events st0 s2 = evs_m @ evs_io @ map Ev_revoke (minted evs_m) \<and>
               revoked evs_m = [] \<and> sent evs_m = [] \<and> minted evs_io = [] \<and> revoked evs_io = [] \<and>
               (dmap_io ?dp = Gen_io \<longrightarrow> map fst (sent evs_io) = [dmap_driver ?dp])"
    by blast
  then have rv2: "revoked (new_events st0 s2) = minted (new_events st0 s2)"
    and se2: "map fst (sent (new_events st0 s2)) = [7]"
    by (elim exE conjE, simp)+
  have ns: "REP_STATUS m2 \<noteq> SUSPEND \<and> (4096::int) = bu2" using st2 bu2 by (simp add: k_defs)
  from thm3 d att2 d2 ns have
    "dev_bio_loop ?e2 DEV_READ 769 FS_PROC_NR 4096 0 512 (env_uninit ?e2) st0 = Some (Ret (REP_STATUS m2) s2)"
    by blast
  moreover from thm3 have "dev_bio ?e2 DEV_READ 769 FS_PROC_NR 4096 0 512 st0
      = dev_bio_loop ?e2 DEV_READ 769 FS_PROC_NR 4096 0 512 (env_uninit ?e2) st0"
    by blast
  ultimately have c: "\<exists>s'. dev_bio ?e2 DEV_READ 769 FS_PROC_NR 4096 0 512 st0 = Some (Ret 512 s')
          \<and> minted (new_events st0 s') = [3] \<and> revoked (new_events st0 s') = [3]
          \<and> map fst (sent (new_events st0 s')) = [7]"
    using mi2 rv2 se2 st2 by simp
  from a b c show ?thesis by (intro conjI)
qed

text \<open>
  Claim C10.  If the source of the message is not the driver of any bound entry of the
  driver map, \<open>dev_status\<close> returns at once and leaves the state as it is: the trace has
  no new event, so no \<open>DEV_STATUS\<close> request was sent and no process was revived.
\<close>

theorem dev_status_unbound_source:
  assumes "\<forall>dp \<in> set (dmap s). \<not> (dmap_driver dp \<noteq> NONE \<and> dmap_driver dp = m_source m)"
  shows "dev_status e m s = Some (Ret () s) \<and> events_of s (dev_status e m s) = []"
proof -
  have "find (\<lambda>d. dmap_driver (dmap s ! d) \<noteq> NONE \<and> dmap_driver (dmap s ! d) = m_source m)
             [0 ..< length (dmap s)] = None"
    using assms by (auto simp: find_None_iff)
  then have "dev_status e m s = Some (Ret () s)"
    by (simp add: dev_status_def)
  then show ?thesis by (simp add: events_of_def)
qed

theorem dev_status_unbound_source_witness:
  "dev_status (driver_replies 0) (mess0\<lparr>m_source := 99\<rparr>) st0 = Some (Ret () st0)
   \<and> events_of st0 (dev_status (driver_replies 0) (mess0\<lparr>m_source := 99\<rparr>) st0) = []"
proof -
  have "\<forall>dp \<in> set (dmap st0). \<not> (dmap_driver dp \<noteq> NONE \<and> dmap_driver dp = m_source (mess0\<lparr>m_source := 99\<rparr>))"
    by (simp add: scenario_defs k_defs)
  from dev_status_unbound_source[OF this] show ?thesis .
qed






text \<open>
  Claim C8 does not hold as it is stated: with a controlling terminal whose binding has
  no driver (or a driver whose endpoint is stale), \<open>ctty_io\<close> returns \<open>EIO\<close> and does not
  call the terminal's handler.  Here the controlling terminal is on major 2, which has
  no driver.
\<close>

theorem ctty_io_redispatch_counterexample:
  "fp_tty (fproc (st_ctty 512) ! 0) \<noteq> 0
   \<and> ctty_io (driver_replies 0) 8 mess0 (st_ctty 512)
       = Some (Ret (EIO, mess0\<lparr>m2_i1 := 0\<rparr>) (st_ctty 512))
   \<and> events_of (st_ctty 512) (ctty_io (driver_replies 0) 8 mess0 (st_ctty 512)) = []"
  by (simp add: ctty_io_def events_of_def, subst call_io.simps, subst call_io.simps)
     (simp add: cur_fp_def dmap_at_def scenario_defs dev_defs k_defs)


text \<open>
  Claim C8, amended.  With a valid \<open>fp\<close>: \<open>ctty_opcl\<close> returns \<open>ENXIO\<close> when the caller's
  controlling terminal is zero and \<open>OK\<close> otherwise, and leaves the state as it is (no
  message).  \<open>ctty_io\<close> with controlling terminal zero sets the reply status of the
  message to \<open>EIO\<close> and leaves the state as it is.  With a controlling terminal that is
  not zero it puts the terminal's minor into the message; if the binding of the
  terminal's major has no driver or a stale one it returns \<open>EIO\<close> without a call, and
  otherwise it calls that binding's I/O handler for that binding's driver and returns
  \<open>OK\<close>.
\<close>

theorem ctty_opcl_and_ctty_io:
  assumes "cur_fp s = Some i"
  shows "ctty_opcl op dev proc_e flags s = Ret (if fp_tty (fproc s ! i) = 0 then ENXIO else OK) s
       \<and> (fp_tty (fproc s ! i) = 0 \<longrightarrow>
            ctty_io e task m s = Some (Ret (OK, m\<lparr>m2_i2 := EIO\<rparr>) s))
       \<and> (fp_tty (fproc s ! i) \<noteq> 0 \<longrightarrow>
            (\<forall>dp. dmap_at s (major_of (fp_tty (fproc s ! i))) = Some dp \<longrightarrow>
               ctty_io e task m s =
                 (if dmap_driver dp = NONE \<or> env_isokendpt e (dmap_driver dp) = None
                  then Some (Ret (EIO, m\<lparr>m2_i1 := minor_of (fp_tty (fproc s ! i))\<rparr>) s)
                  else and_then
                         (call_io e (dmap_io dp) (dmap_driver dp)
                            (m\<lparr>m2_i1 := minor_of (fp_tty (fproc s ! i))\<rparr>) s)
                         (\<lambda>(r, m1) s1. Some (Ret (OK, m1) s1)))))"
proof (intro conjI impI allI)
  show "ctty_opcl op dev proc_e flags s = Ret (if fp_tty (fproc s ! i) = 0 then ENXIO else OK) s"
    using assms by (simp add: ctty_opcl_def)
next
  assume "fp_tty (fproc s ! i) = 0"
  then show "ctty_io e task m s = Some (Ret (OK, m\<lparr>m2_i2 := EIO\<rparr>) s)"
    using assms by (simp add: ctty_io_def, subst call_io.simps) simp
next
  fix dp
  assume nz: "fp_tty (fproc s ! i) \<noteq> 0" and dp: "dmap_at s (major_of (fp_tty (fproc s ! i))) = Some dp"
  have bind: "\<And>x. Option.bind x (\<lambda>res. case res of
                                    Ret (r, mess1) s1 \<Rightarrow> Some (Ret (OK, mess1) s1)
                                  | Panic msg s1 \<Rightarrow> Some (Panic msg s1)
                                  | Fault \<Rightarrow> Some Fault)
               = and_then x (\<lambda>(r, m1) s1. Some (Ret (OK, m1) s1))"
    by (auto simp: and_then_def split: option.splits outcome.splits)
  show "ctty_io e task m s =
                 (if dmap_driver dp = NONE \<or> env_isokendpt e (dmap_driver dp) = None
                  then Some (Ret (EIO, m\<lparr>m2_i1 := minor_of (fp_tty (fproc s ! i))\<rparr>) s)
                  else and_then
                         (call_io e (dmap_io dp) (dmap_driver dp)
                            (m\<lparr>m2_i1 := minor_of (fp_tty (fproc s ! i))\<rparr>) s)
                         (\<lambda>(r, m1) s1. Some (Ret (OK, m1) s1)))"
    unfolding ctty_io_def
    by (subst call_io.simps) (auto simp add: assms nz dp bind)
qed

theorem ctty_opcl_and_ctty_io_witness:
  "ctty_opcl DEV_OPEN 1280 17 0 st0 = Ret ENXIO st0
   \<and> ctty_io (driver_replies 0) 8 mess0 st0 = Some (Ret (OK, mess0\<lparr>m2_i2 := EIO\<rparr>) st0)
   \<and> ctty_opcl DEV_OPEN 1280 17 0 (st_ctty 1027) = Ret OK (st_ctty 1027)
   \<and> (\<exists>m1 s1. ctty_io (driver_replies 0) 8 mess0 (st_ctty 1027) = Some (Ret (OK, m1) s1)
          \<and> sent (new_events (st_ctty 1027) s1) = [(8, mess0\<lparr>m2_i1 := 3\<rparr>)])"
proof -
  have f0: "cur_fp st0 = Some 0" "fp_tty (fproc st0 ! 0) = 0"
    by (simp_all add: cur_fp_def scenario_defs)
  have f1: "cur_fp (st_ctty 1027) = Some 0" "fp_tty (fproc (st_ctty 1027) ! 0) = 1027"
    by (simp_all add: cur_fp_def scenario_defs)
  have d1: "dmap_at (st_ctty 1027) (major_of 1027) = Some \<lparr>dmap_opcl = Tty_opcl, dmap_io = Gen_io, dmap_driver = 8\<rparr>"
    by (simp add: dmap_at_def scenario_defs dev_defs)
  note t0 = ctty_opcl_and_ctty_io[OF f0(1), of DEV_OPEN 1280 17 0 "driver_replies 0" 8 mess0]
  note t1 = ctty_opcl_and_ctty_io[OF f1(1), of DEV_OPEN 1280 17 0 "driver_replies 0" 8 mess0]
  from t0 f0(2) have a: "ctty_opcl DEV_OPEN 1280 17 0 st0 = Ret ENXIO st0"
     "ctty_io (driver_replies 0) 8 mess0 st0 = Some (Ret (OK, mess0\<lparr>m2_i2 := EIO\<rparr>) st0)"
    by simp_all
  from t1 f1(2) have b: "ctty_opcl DEV_OPEN 1280 17 0 (st_ctty 1027) = Ret OK (st_ctty 1027)"
    by simp
  from t1 f1(2) d1 have "ctty_io (driver_replies 0) 8 mess0 (st_ctty 1027) =
      and_then (call_io (driver_replies 0) Gen_io 8 (mess0\<lparr>m2_i1 := minor_of 1027\<rparr>) (st_ctty 1027))
                         (\<lambda>(r, m1) s1. Some (Ret (OK, m1) s1))"
    by (simp add: scenario_defs k_defs)
  then have c: "\<exists>m1 s1. ctty_io (driver_replies 0) 8 mess0 (st_ctty 1027) = Some (Ret (OK, m1) s1)
          \<and> sent (new_events (st_ctty 1027) s1) = [(8, mess0\<lparr>m2_i1 := 3\<rparr>)]"
    by (simp add: call_io_Gen_io gen_io_def sendrec_def emit_def new_events_def scenario_defs dev_defs k_defs)
  from a b c show ?thesis by blast
qed

end
